theory Spec2Isabelle
  imports Complex_Main
begin

section \<open>JavaScript values\<close>

text \<open>
  The servers of this repository are TypeScript programs on Node.js. A JavaScript string
  is modelled as a \<open>string\<close> whose characters are code units below 256; a JavaScript
  number is either a finite value (every double is a rational), \<open>NaN\<close> or one of the two
  infinities. Negative zero is identified with zero: both are falsy and both are integers.
\<close>

datatype number = Finite rat | NaN | PosInfinity | NegInfinity

datatype json =
    JUndefined
  | JNull
  | JBool bool
  | JNum number
  | JStr string
  | JArr "json list"
  | JObj "(string \<times> json) list"

text \<open>A thrown value: an \<open>Error\<close> object with its message, or a value that is not an
  instance of \<open>Error\<close>.\<close>

datatype error = Error string | NonError

text \<open>\<open>!x\<close> is true exactly on the falsy values: \<open>undefined\<close>, \<open>null\<close>, \<open>false\<close>,
  \<open>0\<close>, \<open>NaN\<close> and the empty string.\<close>

fun truthy :: "json \<Rightarrow> bool" where
  "truthy JUndefined = False"
| "truthy JNull = False"
| "truthy (JBool b) = b"
| "truthy (JNum (Finite r)) = (r \<noteq> 0)"
| "truthy (JNum NaN) = False"
| "truthy (JNum PosInfinity) = True"
| "truthy (JNum NegInfinity) = True"
| "truthy (JStr s) = (s \<noteq> [])"
| "truthy (JArr xs) = True"
| "truthy (JObj kvs) = True"

fun typeof :: "json \<Rightarrow> string" where
  "typeof JUndefined = ''undefined''"
| "typeof JNull = ''object''"
| "typeof (JBool b) = ''boolean''"
| "typeof (JNum n) = ''number''"
| "typeof (JStr s) = ''string''"
| "typeof (JArr xs) = ''object''"
| "typeof (JObj kvs) = ''object''"

text \<open>\<open>Number.isInteger(x)\<close>: finite and without a fractional part.\<close>

fun isInteger :: "number \<Rightarrow> bool" where
  "isInteger (Finite r) = (of_int \<lfloor>r\<rfloor> = r)"
| "isInteger NaN = False"
| "isInteger PosInfinity = False"
| "isInteger NegInfinity = False"

text \<open>\<open>x < 0\<close> on numbers; every comparison with \<open>NaN\<close> is false.\<close>

fun less_zero :: "number \<Rightarrow> bool" where
  "less_zero (Finite r) = (r < 0)"
| "less_zero NaN = False"
| "less_zero PosInfinity = False"
| "less_zero NegInfinity = True"

text \<open>Reading a property: an object yields the value stored under the key, and
  \<open>undefined\<close> when the key is absent; the bodies that the JSON parser delivers have no
  other own properties named like a request field.\<close>

fun get_prop :: "json \<Rightarrow> string \<Rightarrow> json" where
  "get_prop (JObj kvs) k = (case map_of kvs k of None \<Rightarrow> JUndefined | Some v \<Rightarrow> v)"
| "get_prop v k = JUndefined"

text \<open>\<open>Object.keys(x).length\<close>.\<close>

fun keys_length :: "json \<Rightarrow> nat" where
  "keys_length (JObj kvs) = length (remdups (map fst kvs))"
| "keys_length (JArr xs) = length xs"
| "keys_length (JStr s) = length s"
| "keys_length v = 0"

text \<open>Decimal digits of a natural number, as a template literal prints an integer
  such as an HTTP status or \<open>Date.now()\<close>.\<close>

definition digit_char :: "nat \<Rightarrow> char" where
  "digit_char d = ''0123456789'' ! d"

fun decimal :: "nat \<Rightarrow> string" where
  "decimal n = (if n < 10 then [digit_char n] else decimal (n div 10) @ [digit_char (n mod 10)])"

declare decimal.simps [simp del]

definition is_digit :: "char \<Rightarrow> bool" where
  "is_digit c = (48 \<le> (of_char c :: nat) \<and> (of_char c :: nat) \<le> 57)"

definition is_lower :: "char \<Rightarrow> bool" where
  "is_lower c = (97 \<le> (of_char c :: nat) \<and> (of_char c :: nat) \<le> 122)"

definition is_upper :: "char \<Rightarrow> bool" where
  "is_upper c = (65 \<le> (of_char c :: nat) \<and> (of_char c :: nat) \<le> 90)"

text \<open>The white space that \<open>String.prototype.trim\<close> removes, among code units below
  256: tab, line feed, vertical tab, form feed, carriage return, space, no-break space.\<close>

definition is_space :: "char \<Rightarrow> bool" where
  "is_space c = ((of_char c :: nat) \<in> {9, 10, 11, 12, 13, 32, 160})"

definition trim :: "string \<Rightarrow> string" where
  "trim s = rev (dropWhile is_space (rev (dropWhile is_space s)))"

definition startsWith :: "string \<Rightarrow> string \<Rightarrow> bool" where
  "startsWith s p = (take (length p) s = p)"

text \<open>\<open>s.substring(a, b)\<close> for \<open>a \<le> b\<close>: both ends are clamped to the length.\<close>

definition substring :: "string \<Rightarrow> nat \<Rightarrow> nat \<Rightarrow> string" where
  "substring s a b = take (b - a) (drop a s)"

text \<open>\<open>s.split(',')\<close>: the pieces between commas; the empty string gives one empty
  piece.\<close>

fun split_comma :: "string \<Rightarrow> string list" where
  "split_comma [] = [[]]"
| "split_comma (c # cs) =
     (if c = CHR '','' then [] # split_comma cs
      else (case split_comma cs of [] \<Rightarrow> [[c]] | p # ps \<Rightarrow> (c # p) # ps))"

section \<open>Configuration: \<open>process.env\<close>\<close>

type_synonym env = "string \<Rightarrow> string option"

text \<open>\<open>!process.env.X\<close>: the variable is unset or set to the empty string.\<close>

definition unset :: "env \<Rightarrow> string \<Rightarrow> bool" where
  "unset e k = (case e k of None \<Rightarrow> True | Some v \<Rightarrow> v = [])"

text \<open>A variable inside a template literal: \<open>undefined\<close> prints as such.\<close>

definition env_text :: "env \<Rightarrow> string \<Rightarrow> string" where
  "env_text e k = (case e k of None \<Rightarrow> ''undefined'' | Some v \<Rightarrow> v)"

section \<open>Text-to-speech configuration (\<open>routes/agent.ts\<close>, \<open>getTTSConfig\<close>)\<close>

record MicrosoftTTSParams =
  key :: string
  region :: string
  voice_name :: string
  rate :: number
  volume :: number

record ElevenLabsTTSParams =
  api_key :: string
  model_id :: string
  voice_id :: string

text \<open>\<open>TTSConfig\<close>: the vendor tag selects the shape of \<open>params\<close>.\<close>

datatype TTSConfig =
    Microsoft MicrosoftTTSParams
  | ElevenLabs ElevenLabsTTSParams

text \<open>\<open>parseFloat\<close> belongs to the JavaScript runtime and is a parameter here.\<close>

definition getTTSConfig :: "(string \<Rightarrow> number) \<Rightarrow> env \<Rightarrow> string \<Rightarrow> error + TTSConfig" where
  "getTTSConfig parseFloat e vendor =
     (if vendor = ''microsoft'' then
        (if unset e ''MICROSOFT_TTS_KEY'' \<or> unset e ''MICROSOFT_TTS_REGION'' \<or>
            unset e ''MICROSOFT_TTS_VOICE_NAME'' \<or> unset e ''MICROSOFT_TTS_RATE'' \<or>
            unset e ''MICROSOFT_TTS_VOLUME''
         then Inl (Error ''Missing Microsoft TTS environment variables'')
         else Inr (Microsoft \<lparr>
           key = env_text e ''MICROSOFT_TTS_KEY'',
           region = env_text e ''MICROSOFT_TTS_REGION'',
           voice_name = env_text e ''MICROSOFT_TTS_VOICE_NAME'',
           rate = parseFloat (env_text e ''MICROSOFT_TTS_RATE''),
           volume = parseFloat (env_text e ''MICROSOFT_TTS_VOLUME'')\<rparr>))
      else if vendor = ''elevenlabs'' then
        (if unset e ''ELEVENLABS_API_KEY'' \<or> unset e ''ELEVENLABS_VOICE_ID'' \<or>
            unset e ''ELEVENLABS_MODEL_ID''
         then Inl (Error ''Missing ElevenLabs environment variables'')
         else Inr (ElevenLabs \<lparr>
           api_key = env_text e ''ELEVENLABS_API_KEY'',
           model_id = env_text e ''ELEVENLABS_MODEL_ID'',
           voice_id = env_text e ''ELEVENLABS_VOICE_ID''\<rparr>))
      else Inl (Error (''Unsupported TTS vendor: '' @ vendor)))"

fun is_microsoft :: "error + TTSConfig \<Rightarrow> bool" where
  "is_microsoft (Inr (Microsoft p)) = True"
| "is_microsoft r = False"

fun is_elevenlabs :: "error + TTSConfig \<Rightarrow> bool" where
  "is_elevenlabs (Inr (ElevenLabs p)) = True"
| "is_elevenlabs r = False"

text \<open>A sample configuration: every Microsoft variable but the speaking rate.\<close>

definition env_no_rate :: env where
  "env_no_rate = [''MICROSOFT_TTS_KEY'' \<mapsto> ''k'', ''MICROSOFT_TTS_REGION'' \<mapsto> ''eastus'',
     ''MICROSOFT_TTS_VOICE_NAME'' \<mapsto> ''en-US-AndrewNeural'', ''MICROSOFT_TTS_VOLUME'' \<mapsto> ''100'']"

section \<open>Requests and responses\<close>

text \<open>
  What the middleware and the handlers read from an Express request: the method, the
  path, whether \<open>req.is('application/json')\<close> is truthy, \<open>req.body\<close> as the body parser
  left it, and the two query parameters of the token route (absent, or the string
  given).
\<close>

record request =
  req_method :: string
  path :: string
  is_json :: bool
  body :: json
  query_uid :: "string option"
  query_channel :: "string option"

record response =
  status :: nat
  payload :: json

definition error_response :: "nat \<Rightarrow> string \<Rightarrow> response" where
  "error_response code msg = \<lparr>status = code, payload = JObj [(''error'', JStr msg)]\<rparr>"

section \<open>Validation middleware (\<open>utils/validation.ts\<close>)\<close>

text \<open>Each middleware either answers the request (\<open>Some\<close> response) or calls
  \<open>next()\<close> (\<open>None\<close>).\<close>

definition validateEnvironment :: "env \<Rightarrow> request \<Rightarrow> response option" where
  "validateEnvironment e req =
     (if unset e ''AGORA_APP_ID'' \<or> unset e ''AGORA_APP_CERTIFICATE''
      then Some (error_response 500 ''Agora credentials are not set'')
      else if startsWith (path req) ''/agent'' then
        (if unset e ''AGORA_CONVO_AI_BASE_URL'' \<or> unset e ''AGORA_CUSTOMER_ID'' \<or>
            unset e ''AGORA_CUSTOMER_SECRET''
         then Some (error_response 500 ''Agora Conversation AI credentials are not set'')
         else if unset e ''LLM_URL'' \<or> unset e ''LLM_TOKEN''
         then Some (error_response 500 ''LLM configuration is not set'')
         else if unset e ''TTS_VENDOR''
         then Some (error_response 500 ''TTS_VENDOR is not set'')
         else if e ''TTS_VENDOR'' = Some ''microsoft'' then
           (if unset e ''MICROSOFT_TTS_KEY'' \<or> unset e ''MICROSOFT_TTS_REGION'' \<or>
               unset e ''MICROSOFT_TTS_VOICE_NAME'' \<or> unset e ''MICROSOFT_TTS_RATE'' \<or>
               unset e ''MICROSOFT_TTS_VOLUME''
            then Some (error_response 500 ''Microsoft TTS configuration is not set'')
            else None)
         else if e ''TTS_VENDOR'' = Some ''elevenlabs'' then
           (if unset e ''ELEVENLABS_API_KEY'' \<or> unset e ''ELEVENLABS_VOICE_ID'' \<or>
               unset e ''ELEVENLABS_MODEL_ID''
            then Some (error_response 500 ''ElevenLabs TTS configuration is not set'')
            else None)
         else Some (error_response 500 (''Unsupported TTS vendor: '' @ env_text e ''TTS_VENDOR'')))
      else None)"

definition validateContentType :: "request \<Rightarrow> response option" where
  "validateContentType req =
     (if req_method req = ''POST'' \<and> \<not> is_json req
      then Some (error_response 415
        ''Unsupported Media Type. Content-Type must be application/json'')
      else None)"

definition validateRequestBody :: "request \<Rightarrow> response option" where
  "validateRequestBody req =
     (if req_method req \<noteq> ''POST'' then None
      else if \<not> truthy (body req) \<or> keys_length (body req) = 0
      then Some (error_response 400 ''Request body is required'')
      else if path req = ''/agent/invite'' then
        (let requester_id = get_prop (body req) ''requester_id'';
             channel_name = get_prop (body req) ''channel_name''
         in if \<not> truthy requester_id
            then Some (error_response 400 ''requester_id is required'')
            else if \<not> truthy channel_name
            then Some (error_response 400 ''channel_name is required'')
            else
              (case (case requester_id of
                       JStr s \<Rightarrow>
                         (if trim s = [] then Some (error_response 400 ''requester_id cannot be empty'')
                          else None)
                     | JNum n \<Rightarrow>
                         (if \<not> isInteger n \<or> less_zero n
                          then Some (error_response 400
                            ''requester_id must be a positive integer when provided as a number'')
                          else None)
                     | _ \<Rightarrow> Some (error_response 400 ''requester_id must be a string or number''))
               of Some r \<Rightarrow> Some r
                | None \<Rightarrow>
                   (case channel_name of
                      JStr c \<Rightarrow>
                        (if length c < 3 \<or> length c > 64
                         then Some (error_response 400
                           ''channel_name length must be between 3 and 64 characters'')
                         else None)
                    | _ \<Rightarrow> Some (error_response 400 ''channel_name must be a string''))))
      else if path req = ''/agent/remove'' then
        (let agent_id = get_prop (body req) ''agent_id''
         in if \<not> truthy agent_id
            then Some (error_response 400 ''agent_id is required'')
            else if typeof agent_id \<noteq> ''string''
            then Some (error_response 400 ''agent_id must be a string'')
            else None)
      else None)"

section \<open>What the handlers obtain from outside the repository\<close>

datatype RtcRole = PUBLISHER | SUBSCRIBER

datatype uid = NumericUid number | StringUid string

text \<open>The arguments of \<open>RtcTokenBuilder.buildTokenWithUid\<close>, in the order of the call.
  The channel is the value the caller passes: a string in the token route, and in the
  invite handler whatever \<open>channel_name\<close> the body holds.\<close>

record token_args =
  appId :: "string option"
  appCertificate :: "string option"
  channelName :: json
  account :: uid
  rtc_role :: RtcRole
  tokenExpire :: nat
  privilegeExpire :: nat

record AsrConfig =
  language :: string
  task :: string

record SystemMessage =
  role :: string
  content :: string

record LlmParams =
  model :: "string option"
  max_tokens :: nat
  temperature :: rat
  top_p :: rat

record LlmConfig =
  llm_url :: "string option"
  llm_api_key :: "string option"
  system_messages :: "SystemMessage list"
  greeting_message :: string
  failure_message :: string
  max_history :: nat
  params :: LlmParams
  input_modalities :: json
  output_modalities :: json

record VadConfig =
  silence_duration_ms :: nat
  speech_duration_ms :: nat
  threshold :: rat
  interrupt_duration_ms :: nat
  prefix_padding_ms :: nat

record AdvancedFeatures =
  enable_aivad :: bool
  enable_bhvs :: bool

record Properties =
  channel :: json
  token :: string
  agent_rtc_uid :: string
  remote_rtc_uids :: "string list"
  enable_string_uid :: bool
  idle_timeout :: nat
  asr :: AsrConfig
  llm :: LlmConfig
  tts :: TTSConfig
  vad :: VadConfig
  advanced_features :: AdvancedFeatures

record AgoraStartRequest =
  name :: string
  properties :: Properties

text \<open>One call of \<open>fetch\<close>: the URL, the \<open>id:secret\<close> pair that is sent Base64-encoded
  in the \<open>Authorization\<close> header, and the request body that is serialised, if any.\<close>

record upstream_call =
  call_url :: string
  credential :: string
  call_body :: "AgoraStartRequest option"

text \<open>The upstream response: its status, its text, and what \<open>response.json()\<close>
  gives (parsing may throw). \<open>response.ok\<close> is true for the statuses 200 to 299.\<close>

record upstream_response =
  up_status :: nat
  up_text :: string
  up_json :: "error + json"

definition ok :: "upstream_response \<Rightarrow> bool" where
  "ok r = (200 \<le> up_status r \<and> up_status r \<le> 299)"

text \<open>
  The runtime and the collaborators: the number functions of JavaScript, the signing
  primitive, the provisioning service behind \<open>fetch\<close>, the clock and the random source.
  \<open>date_now\<close> is the value of \<open>Date.now()\<close> read by a route handler, \<open>date_now_name\<close>
  the one read inside \<open>generateChannelName\<close>, and \<open>random36\<close> the value of
  \<open>Math.random().toString(36)\<close>. The signing primitive and \<open>fetch\<close> may throw.
\<close>

record platform =
  parseInt :: "string \<Rightarrow> number"
  parseFloat :: "string \<Rightarrow> number"
  numberToString :: "number \<Rightarrow> string"
  buildTokenWithUid :: "token_args \<Rightarrow> error + string"
  fetch :: "upstream_call \<Rightarrow> error + upstream_response"
  date_now :: nat
  date_now_name :: nat
  random36 :: string

text \<open>The interactions with the collaborators, in the order they happen.\<close>

datatype event = Sign token_args | Fetch upstream_call

section \<open>Agent routes (\<open>routes/agent.ts\<close>)\<close>

text \<open>
  The handlers are declared with the request interfaces \<open>InviteAgentRequest\<close> and
  \<open>RemoveAgentRequest\<close> of \<open>types/client-request-types.ts\<close>. The interfaces are erased
  when the program runs: a handler receives the JSON value that the body parser
  delivered, whatever its shape, and only the validation middleware stands between a
  request and it. The handlers are therefore functions of the JSON body.
\<close>

text \<open>
  The string that a template literal makes of a value. An array is joined with commas,
  \<open>null\<close> and \<open>undefined\<close> elements giving the empty string. An object parsed from JSON
  prints as \<open>[object Object]\<close>, unless it has an own property \<open>toString\<close>, which cannot be
  a function: then the conversion throws.
\<close>

fun js_string :: "platform \<Rightarrow> json \<Rightarrow> error + string"
  and js_join :: "platform \<Rightarrow> json list \<Rightarrow> error + string" where
  "js_string p JUndefined = Inr ''undefined''"
| "js_string p JNull = Inr ''null''"
| "js_string p (JBool b) = Inr (if b then ''true'' else ''false'')"
| "js_string p (JNum n) = Inr (numberToString p n)"
| "js_string p (JStr s) = Inr s"
| "js_string p (JArr xs) = js_join p xs"
| "js_string p (JObj kvs) =
     (if map_of kvs ''toString'' = None then Inr ''[object Object]''
      else Inl (Error ''Cannot convert object to primitive value''))"
| "js_join p [] = Inr []"
| "js_join p (x # xs) =
     (case (if x = JUndefined \<or> x = JNull then Inr [] else js_string p x) of
        Inl err \<Rightarrow> Inl err
      | Inr s \<Rightarrow>
          (if xs = [] then Inr s
           else (case js_join p xs of
                   Inl err \<Rightarrow> Inl err
                 | Inr t \<Rightarrow> Inr (s @ '','' @ t))))"

text \<open>\<open>requester_id.toString()\<close>: the method call throws on \<open>undefined\<close> and \<open>null\<close>,
  and on an object whose own \<open>toString\<close> is not a function. The messages of these
  \<open>TypeError\<close>s are worded by the JavaScript engine and are shortened here.\<close>

fun call_toString :: "platform \<Rightarrow> json \<Rightarrow> error + string" where
  "call_toString p JUndefined = Inl (Error ''Cannot read properties of undefined'')"
| "call_toString p JNull = Inl (Error ''Cannot read properties of null'')"
| "call_toString p (JObj kvs) =
     (if map_of kvs ''toString'' = None then Inr ''[object Object]''
      else Inl (Error ''requester_id.toString is not a function''))"
| "call_toString p v = js_string p v"

text \<open>Destructuring \<open>req.body\<close> throws when the body is \<open>undefined\<close> or \<open>null\<close>.\<close>

definition destructurable :: "json \<Rightarrow> bool" where
  "destructurable b = (b \<noteq> JUndefined \<and> b \<noteq> JNull)"

definition destructure_error :: error where
  "destructure_error = Error ''Cannot destructure property of req.body''"

text \<open>The regular expression \<open>/[a-zA-Z]/\<close>, tested against a string.\<close>

definition test_letter :: "string \<Rightarrow> bool" where
  "test_letter s = list_ex (\<lambda>c. is_lower c \<or> is_upper c) s"

text \<open>\<open>given || process.env.X?.split(',') || fallback\<close>; an array is always truthy.\<close>

definition modalities :: "json \<Rightarrow> string option \<Rightarrow> string list \<Rightarrow> json" where
  "modalities given configured fallback =
     (if truthy given then given
      else (case configured of
              None \<Rightarrow> JArr (map JStr fallback)
            | Some v \<Rightarrow> JArr (map JStr (split_comma v))))"

text \<open>The \<open>catch\<close> blocks: status 500 with the message of the \<open>Error\<close>, or with the
  fixed text for any other thrown value.\<close>

fun catch_error :: "string \<Rightarrow> error \<Rightarrow> response" where
  "catch_error fallback (Error msg) = error_response 500 msg"
| "catch_error fallback NonError = error_response 500 fallback"

definition systemMessage :: string where
  "systemMessage = ''You are a helpful assistant. Pretend that the text input is audio, and you are responding to it. Speak fast, clearly, and concisely.''"

definition invite_token_args :: "platform \<Rightarrow> env \<Rightarrow> json \<Rightarrow> token_args" where
  "invite_token_args p e b =
     (let channel_name = get_prop b ''channel_name'';
          agentUid = (if unset e ''AGENT_UID'' then ''Agent'' else env_text e ''AGENT_UID'');
          timestamp = date_now p;
          expirationTime = timestamp div 1000 + 3600
      in \<lparr>appId = e ''AGORA_APP_ID'',
          appCertificate = e ''AGORA_APP_CERTIFICATE'',
          channelName = channel_name,
          account = StringUid agentUid,
          rtc_role = PUBLISHER,
          tokenExpire = expirationTime,
          privilegeExpire = expirationTime\<rparr>)"

definition invite_request_body ::
  "platform \<Rightarrow> env \<Rightarrow> json \<Rightarrow> string \<Rightarrow> TTSConfig \<Rightarrow> string \<Rightarrow> AgoraStartRequest" where
  "invite_request_body p e b tok ttsConfig requesterUid =
     (let channel_name = get_prop b ''channel_name'';
          input_modalities = get_prop b ''input_modalities'';
          output_modalities = get_prop b ''output_modalities'';
          agentUid = (if unset e ''AGENT_UID'' then ''Agent'' else env_text e ''AGENT_UID'');
          timestamp = date_now p;
          random = substring (random36 p) 2 8;
          uniqueName = ''conversation-'' @ decimal timestamp @ ''-'' @ random
      in \<lparr>name = uniqueName,
          properties = \<lparr>
            channel = channel_name,
            token = tok,
            agent_rtc_uid = agentUid,
            remote_rtc_uids = [requesterUid],
            enable_string_uid = test_letter requesterUid,
            idle_timeout = 30,
            asr = \<lparr>language = ''en-US'', task = ''conversation''\<rparr>,
            llm = \<lparr>
              llm_url = e ''LLM_URL'',
              llm_api_key = e ''LLM_TOKEN'',
              system_messages = [\<lparr>role = ''system'', content = systemMessage\<rparr>],
              greeting_message = ''Hello! How can I assist you today?'',
              failure_message = ''Please wait a moment.'',
              max_history = 10,
              params = \<lparr>model = e ''LLM_MODEL'', max_tokens = 1024,
                        temperature = 7 / 10, top_p = 95 / 100\<rparr>,
              input_modalities =
                modalities input_modalities (e ''INPUT_MODALITIES'') [''text''],
              output_modalities =
                modalities output_modalities (e ''OUTPUT_MODALITIES'') [''text'', ''audio'']\<rparr>,
            tts = ttsConfig,
            vad = \<lparr>silence_duration_ms = 480, speech_duration_ms = 15000, threshold = 1 / 2,
                   interrupt_duration_ms = 160, prefix_padding_ms = 300\<rparr>,
            advanced_features = \<lparr>enable_aivad = False, enable_bhvs = False\<rparr>\<rparr>\<rparr>)"

definition invite_call :: "env \<Rightarrow> AgoraStartRequest \<Rightarrow> upstream_call" where
  "invite_call e requestBody =
     \<lparr>call_url = env_text e ''AGORA_CONVO_AI_BASE_URL'' @ ''/'' @ env_text e ''AGORA_APP_ID'' @ ''/join'',
      credential = env_text e ''AGORA_CUSTOMER_ID'' @ '':'' @ env_text e ''AGORA_CUSTOMER_SECRET'',
      call_body = Some requestBody\<rparr>"

text \<open>\<open>router.post('/invite', ...)\<close>: the response sent and the interactions made. The
  steps follow the source: the token, the vendor, the TTS configuration, the string of
  the requester, the request, the call, the test of \<open>response.ok\<close>, the parsed answer;
  whatever is thrown on the way is caught and answered with status 500.\<close>

definition invite_handler :: "platform \<Rightarrow> env \<Rightarrow> json \<Rightarrow> response \<times> event list" where
  "invite_handler p e b =
     (if \<not> destructurable b
      then (catch_error ''Failed to start conversation'' destructure_error, [])
      else
     (let args = invite_token_args p e b
      in case buildTokenWithUid p args of
           Inl err \<Rightarrow> (catch_error ''Failed to start conversation'' err, [Sign args])
         | Inr tok \<Rightarrow>
             if unset e ''TTS_VENDOR''
             then (catch_error ''Failed to start conversation'' (Error ''TTS_VENDOR is not set''),
                   [Sign args])
             else
               (case getTTSConfig (parseFloat p) e (env_text e ''TTS_VENDOR'') of
                  Inl err \<Rightarrow> (catch_error ''Failed to start conversation'' err, [Sign args])
                | Inr ttsConfig \<Rightarrow>
                   (case call_toString p (get_prop b ''requester_id'') of
                      Inl err \<Rightarrow> (catch_error ''Failed to start conversation'' err, [Sign args])
                    | Inr requesterUid \<Rightarrow>
                    (let call = invite_call e (invite_request_body p e b tok ttsConfig requesterUid)
                     in case fetch p call of
                          Inl err \<Rightarrow>
                            (catch_error ''Failed to start conversation'' err, [Sign args, Fetch call])
                        | Inr resp \<Rightarrow>
                            if \<not> ok resp
                            then (catch_error ''Failed to start conversation''
                                    (Error (''Failed to start conversation: '' @ decimal (up_status resp))),
                                  [Sign args, Fetch call])
                            else
                              (case up_json resp of
                                 Inl err \<Rightarrow>
                                   (catch_error ''Failed to start conversation'' err,
                                    [Sign args, Fetch call])
                               | Inr data \<Rightarrow>
                                   (\<lparr>status = 200, payload = data\<rparr>, [Sign args, Fetch call])))))))"

definition remove_call :: "env \<Rightarrow> string \<Rightarrow> upstream_call" where
  "remove_call e agentId =
     \<lparr>call_url = env_text e ''AGORA_CONVO_AI_BASE_URL'' @ ''/'' @ env_text e ''AGORA_APP_ID'' @
        ''/agents/'' @ agentId @ ''/leave'',
      credential = env_text e ''AGORA_CUSTOMER_ID'' @ '':'' @ env_text e ''AGORA_CUSTOMER_SECRET'',
      call_body = None\<rparr>"

text \<open>\<open>router.post('/remove', ...)\<close>: the handler's own test is \<open>!agent_id\<close> only; the
  identifier then enters the URL through a template literal.\<close>

definition remove_handler :: "platform \<Rightarrow> env \<Rightarrow> json \<Rightarrow> response \<times> event list" where
  "remove_handler p e b =
     (if \<not> destructurable b
      then (catch_error ''Failed to remove agent'' destructure_error, [])
      else
     (let agent_id = get_prop b ''agent_id''
      in if \<not> truthy agent_id
         then (catch_error ''Failed to remove agent'' (Error ''agent_id is required''), [])
         else
           (case js_string p agent_id of
              Inl err \<Rightarrow> (catch_error ''Failed to remove agent'' err, [])
            | Inr agentId \<Rightarrow>
               (let call = remove_call e agentId
                in case fetch p call of
                     Inl err \<Rightarrow> (catch_error ''Failed to remove agent'' err, [Fetch call])
                   | Inr resp \<Rightarrow>
                       if \<not> ok resp
                       then (catch_error ''Failed to remove agent''
                               (Error (''Failed to remove agent: '' @ decimal (up_status resp))),
                             [Fetch call])
                       else (\<lparr>status = 200, payload = JObj [(''success'', JBool True)]\<rparr>,
                             [Fetch call])))))"

section \<open>Token route (\<open>routes/token.ts\<close>)\<close>

definition generateChannelName :: "platform \<Rightarrow> string" where
  "generateChannelName p =
     (let timestamp = date_now_name p;
          random = substring (random36 p) 2 8
      in ''ai-conversation-'' @ decimal timestamp @ ''-'' @ random)"

text \<open>The route's own \<open>validateEnvironment\<close>.\<close>

definition token_validateEnvironment :: "env \<Rightarrow> response option" where
  "token_validateEnvironment e =
     (if unset e ''AGORA_APP_ID'' \<or> unset e ''AGORA_APP_CERTIFICATE''
      then Some (error_response 500 ''Agora credentials are not set'')
      else None)"

text \<open>\<open>x || d\<close> on an optional string: absent and empty both give the default.\<close>

definition or_else :: "string option \<Rightarrow> string \<Rightarrow> string" where
  "or_else x d = (case x of None \<Rightarrow> d | Some v \<Rightarrow> if v = [] then d else v)"

definition given :: "string option \<Rightarrow> bool" where
  "given x = (case x of None \<Rightarrow> False | Some v \<Rightarrow> v \<noteq> [])"

text \<open>The regular expressions \<open>/^\d+$/\<close> and \<open>/^[a-zA-Z0-9-]+$/\<close>.\<close>

definition test_digits :: "string \<Rightarrow> bool" where
  "test_digits s = (s \<noteq> [] \<and> list_all is_digit s)"

definition test_alnum_hyphen :: "string \<Rightarrow> bool" where
  "test_alnum_hyphen s =
     (s \<noteq> [] \<and> list_all (\<lambda>c. is_lower c \<or> is_upper c \<or> is_digit c \<or> c = CHR ''-'') s)"

definition validateRequest :: "request \<Rightarrow> response option" where
  "validateRequest req =
     (if given (query_uid req) \<and> \<not> test_digits (or_else (query_uid req) [])
      then Some (error_response 400 ''Invalid uid parameter. Must be a number'')
      else if given (query_channel req) then
        (let c = or_else (query_channel req) []
         in if length c < 1 \<or> length c > 64
            then Some (error_response 400
              ''Invalid channel parameter. Length must be between 1 and 64 characters'')
            else if \<not> test_alnum_hyphen c
            then Some (error_response 400
              ''Invalid channel parameter. Only alphanumeric characters and hyphens are allowed'')
            else None)
      else None)"

definition token_channel :: "platform \<Rightarrow> request \<Rightarrow> string" where
  "token_channel p req = or_else (query_channel req) (generateChannelName p)"

definition token_token_args :: "platform \<Rightarrow> env \<Rightarrow> request \<Rightarrow> token_args" where
  "token_token_args p e req =
     (let uid = parseInt p (or_else (query_uid req) ''0'');
          channelName = token_channel p req;
          expirationTime = date_now p div 1000 + 3600
      in \<lparr>appId = e ''AGORA_APP_ID'',
          appCertificate = e ''AGORA_APP_CERTIFICATE'',
          channelName = JStr channelName,
          account = NumericUid uid,
          rtc_role = PUBLISHER,
          tokenExpire = expirationTime,
          privilegeExpire = expirationTime\<rparr>)"

fun token_catch :: "error \<Rightarrow> response" where
  "token_catch (Error msg) =
     \<lparr>status = 500, payload = JObj [(''error'', JStr ''Failed to generate Agora token''),
                                      (''details'', JStr msg)]\<rparr>"
| "token_catch NonError =
     \<lparr>status = 500, payload = JObj [(''error'', JStr ''Failed to generate Agora token''),
                                      (''details'', JStr ''Unknown error'')]\<rparr>"

text \<open>The handler of \<open>GET /token\<close>, after the route's two middleware functions.\<close>

definition token_handler :: "platform \<Rightarrow> env \<Rightarrow> request \<Rightarrow> response \<times> event list" where
  "token_handler p e req =
     (let args = token_token_args p e req
      in case buildTokenWithUid p args of
           Inl err \<Rightarrow> (token_catch err, [Sign args])
         | Inr tok \<Rightarrow>
             (\<lparr>status = 200,
               payload = JObj [(''token'', JStr tok),
                               (''uid'', JStr (numberToString p (parseInt p (or_else (query_uid req) ''0'')))),
                               (''channel'', JStr (token_channel p req))]\<rparr>,
              [Sign args]))"

definition token_route :: "platform \<Rightarrow> env \<Rightarrow> request \<Rightarrow> response \<times> event list" where
  "token_route p e req =
     (case token_validateEnvironment e of
        Some r \<Rightarrow> (r, [])
      | None \<Rightarrow>
          (case validateRequest req of
             Some r \<Rightarrow> (r, [])
           | None \<Rightarrow> token_handler p e req))"

section \<open>The router (\<open>index.ts\<close>)\<close>

text \<open>
  The routers are created with \<open>express.Router()\<close> and its defaults: a route matches a
  path without regard to letter case and with or without one trailing slash, and a
  route registered with \<open>get\<close> also serves \<open>HEAD\<close>. \<open>req.path\<close>, which the validation
  middleware compares with \<open>===\<close> and \<open>startsWith\<close>, is the path as it was sent. Other
  spellings that the router may tolerate, such as a doubled slash, are left out: the
  model answers them as unmatched.
\<close>

definition lower_char :: "char \<Rightarrow> char" where
  "lower_char c = (if is_upper c then char_of (of_char c + (32 :: nat)) else c)"

definition route_matches :: "string \<Rightarrow> string \<Rightarrow> bool" where
  "route_matches route pth =
     (map lower_char pth = route \<or> map lower_char pth = route @ ''/'')"

definition get_or_head :: "string \<Rightarrow> bool" where
  "get_or_head m = (m = ''GET'' \<or> m = ''HEAD'')"

text \<open>The reply of Express when no route matches.\<close>

definition not_found :: response where
  "not_found = \<lparr>status = 404, payload = JUndefined\<rparr>"

text \<open>The routes registered after the three validation middleware functions:
  \<open>/token\<close>, \<open>/agent/invite\<close>, \<open>/agent/remove\<close> and \<open>/ping\<close>.\<close>

definition dispatch :: "platform \<Rightarrow> env \<Rightarrow> request \<Rightarrow> response \<times> event list" where
  "dispatch p e req =
     (if get_or_head (req_method req) \<and> route_matches ''/token'' (path req)
      then token_route p e req
      else if req_method req = ''POST'' \<and> route_matches ''/agent/invite'' (path req)
      then invite_handler p e (body req)
      else if req_method req = ''POST'' \<and> route_matches ''/agent/remove'' (path req)
      then remove_handler p e (body req)
      else if get_or_head (req_method req) \<and> route_matches ''/ping'' (path req)
      then (\<lparr>status = 200, payload = JObj [(''message'', JStr ''pong'')]\<rparr>, [])
      else (not_found, []))"

text \<open>The router mounted at \<open>/\<close>: \<open>router.use(validateEnvironment)\<close>,
  \<open>router.use(validateContentType)\<close>, \<open>router.use(validateRequestBody)\<close>, then the
  routes, in this order.\<close>

definition handle_request :: "platform \<Rightarrow> env \<Rightarrow> request \<Rightarrow> response \<times> event list" where
  "handle_request p e req =
     (case validateEnvironment e req of
        Some r \<Rightarrow> (r, [])
      | None \<Rightarrow>
          (case validateContentType req of
             Some r \<Rightarrow> (r, [])
           | None \<Rightarrow>
               (case validateRequestBody req of
                  Some r \<Rightarrow> (r, [])
                | None \<Rightarrow> dispatch p e req)))"

section \<open>The application (\<open>index.ts\<close>)\<close>

text \<open>
  Before the router the application registers \<open>cors()\<close> and \<open>express.json()\<close>. An
  inbound request is what arrives: its method and path, whether its \<open>Content-Type\<close> is
  \<open>application/json\<close>, and its body, which is absent, or a text that is not JSON, or a
  JSON text with its value.
\<close>

datatype sent_body = NoBody | Unparsable | JsonText json

record inbound =
  in_method :: string
  in_path :: string
  json_content_type :: bool
  sent :: sent_body
  in_query_uid :: "string option"
  in_query_channel :: "string option"

text \<open>\<open>cors()\<close> with its defaults answers every \<open>OPTIONS\<close> request itself, with status
  204, and passes every other request on.\<close>

definition cors :: "inbound \<Rightarrow> response option" where
  "cors raw = (if in_method raw = ''OPTIONS'' then Some \<lparr>status = 204, payload = JUndefined\<rparr>
               else None)"

text \<open>
  \<open>express.json()\<close> with its defaults reads a body only when the content type is JSON.
  It accepts an object or an array and stores it in \<open>req.body\<close>; a text that is not JSON,
  or a JSON text that is neither, ends the request with status 400 through the error
  handler of Express. A request whose body is not read keeps an empty \<open>req.body\<close>, and
  \<open>req.is('application/json')\<close> is truthy exactly when a body with the JSON content
  type is present.
\<close>

fun structured :: "json \<Rightarrow> bool" where
  "structured (JObj kvs) = True"
| "structured (JArr xs) = True"
| "structured v = False"

definition parse_failed :: response where
  "parse_failed = \<lparr>status = 400, payload = JUndefined\<rparr>"

definition delivered :: "inbound \<Rightarrow> bool \<Rightarrow> json \<Rightarrow> request" where
  "delivered raw j b =
     \<lparr>req_method = in_method raw, path = in_path raw, is_json = j, body = b,
      query_uid = in_query_uid raw, query_channel = in_query_channel raw\<rparr>"

definition express_json :: "inbound \<Rightarrow> response + request" where
  "express_json raw =
     (case sent raw of
        NoBody \<Rightarrow> Inr (delivered raw False (JObj []))
      | Unparsable \<Rightarrow>
          if json_content_type raw then Inl parse_failed
          else Inr (delivered raw False (JObj []))
      | JsonText v \<Rightarrow>
          if json_content_type raw
          then (if structured v then Inr (delivered raw True v) else Inl parse_failed)
          else Inr (delivered raw False (JObj [])))"

text \<open>\<open>app.use(cors())\<close>, \<open>app.use(express.json())\<close>, \<open>app.use('/', router)\<close>.\<close>

definition app :: "platform \<Rightarrow> env \<Rightarrow> inbound \<Rightarrow> response \<times> event list" where
  "app p e raw =
     (case cors raw of
        Some r \<Rightarrow> (r, [])
      | None \<Rightarrow>
          (case express_json raw of
             Inl r \<Rightarrow> (r, [])
           | Inr req \<Rightarrow> handle_request p e req))"

section \<open>Patterns named by the specification\<close>

text \<open>
  The generated channel name is specified by the regular expression
  \<open>^ai-conversation-\d+-[a-z0-9]{6}$\<close>. \<open>channel_suffix\<close> reads a string of the shape
  \<open>ai-conversation-\<close>, one or more digits, a hyphen, and a suffix of lower-case letters
  and digits, and returns the suffix; a hyphen is not a digit, so the digits are the
  longest run of digits. The regular expression matches when the suffix has six
  characters.
\<close>

definition channel_suffix :: "string \<Rightarrow> string option" where
  "channel_suffix s =
     (if startsWith s ''ai-conversation-'' then
        (let r = drop 16 s; ds = takeWhile is_digit r
         in if ds = [] then None
            else (case dropWhile is_digit r of
                    [] \<Rightarrow> None
                  | c # suf \<Rightarrow>
                      if c = CHR ''-'' \<and> list_all (\<lambda>c. is_lower c \<or> is_digit c) suf
                      then Some suf else None))
      else None)"

definition matches_token_channel :: "string \<Rightarrow> bool" where
  "matches_token_channel s = (case channel_suffix s of None \<Rightarrow> False | Some suf \<Rightarrow> length suf = 6)"

text \<open>The values of \<open>Math.random().toString(36)\<close>: \<open>0\<close>, or \<open>0.\<close> followed by at least
  one digit of radix 36.\<close>

definition radix36_fraction :: "string \<Rightarrow> bool" where
  "radix36_fraction s =
     (s = ''0'' \<or>
      (take 2 s = ''0.'' \<and> drop 2 s \<noteq> [] \<and> list_all (\<lambda>c. is_lower c \<or> is_digit c) (drop 2 s)))"

section \<open>Conditions used in the statements\<close>

text \<open>The checks that \<open>validateRequestBody\<close> applies to \<open>requester_id\<close>, taken together:
  a string with a character that is not white space, or a number that is truthy, an
  integer and not below zero.\<close>

fun requester_id_passes :: "json \<Rightarrow> bool" where
  "requester_id_passes (JStr s) = (trim s \<noteq> [])"
| "requester_id_passes (JNum n) = (truthy (JNum n) \<and> isInteger n \<and> \<not> less_zero n)"
| "requester_id_passes v = False"

text \<open>The three responses of \<open>validateRequestBody\<close> about \<open>channel_name\<close>.\<close>

definition channel_name_errors :: "response list" where
  "channel_name_errors =
     [error_response 400 ''channel_name is required'',
      error_response 400 ''channel_name must be a string'',
      error_response 400 ''channel_name length must be between 3 and 64 characters'']"

text \<open>The selected vendor's variables, as \<open>validateEnvironment\<close> requires them.\<close>

definition tts_configured :: "env \<Rightarrow> bool" where
  "tts_configured e =
     ((e ''TTS_VENDOR'' = Some ''microsoft'' \<and>
         \<not> unset e ''MICROSOFT_TTS_KEY'' \<and> \<not> unset e ''MICROSOFT_TTS_REGION'' \<and>
         \<not> unset e ''MICROSOFT_TTS_VOICE_NAME'' \<and> \<not> unset e ''MICROSOFT_TTS_RATE'' \<and>
         \<not> unset e ''MICROSOFT_TTS_VOLUME'') \<or>
      (e ''TTS_VENDOR'' = Some ''elevenlabs'' \<and>
         \<not> unset e ''ELEVENLABS_API_KEY'' \<and> \<not> unset e ''ELEVENLABS_VOICE_ID'' \<and>
         \<not> unset e ''ELEVENLABS_MODEL_ID''))"

text \<open>The identity-provider credentials, and the whole configuration that the
  specification lists: identity provider, provisioning service, LLM endpoint and the
  selected vendor.\<close>

definition agora_configured :: "env \<Rightarrow> bool" where
  "agora_configured e = (\<not> unset e ''AGORA_APP_ID'' \<and> \<not> unset e ''AGORA_APP_CERTIFICATE'')"

definition agent_configured :: "env \<Rightarrow> bool" where
  "agent_configured e =
     (\<not> unset e ''AGORA_CONVO_AI_BASE_URL'' \<and> \<not> unset e ''AGORA_CUSTOMER_ID'' \<and>
      \<not> unset e ''AGORA_CUSTOMER_SECRET'' \<and> \<not> unset e ''LLM_URL'' \<and> \<not> unset e ''LLM_TOKEN'' \<and>
      tts_configured e)"

section \<open>Sample configurations, platforms and requests\<close>

text \<open>A deployment configured for Microsoft, and one with the identity-provider
  credentials only.\<close>

definition env_microsoft :: env where
  "env_microsoft = [
     ''AGORA_APP_ID'' \<mapsto> ''app'', ''AGORA_APP_CERTIFICATE'' \<mapsto> ''cert'',
     ''AGORA_CONVO_AI_BASE_URL'' \<mapsto> ''https://api.example/v2/projects'',
     ''AGORA_CUSTOMER_ID'' \<mapsto> ''id'', ''AGORA_CUSTOMER_SECRET'' \<mapsto> ''secret'',
     ''LLM_URL'' \<mapsto> ''https://llm.example/v1'', ''LLM_TOKEN'' \<mapsto> ''t'',
     ''TTS_VENDOR'' \<mapsto> ''microsoft'',
     ''MICROSOFT_TTS_KEY'' \<mapsto> ''k'', ''MICROSOFT_TTS_REGION'' \<mapsto> ''eastus'',
     ''MICROSOFT_TTS_VOICE_NAME'' \<mapsto> ''en-US-AndrewNeural'',
     ''MICROSOFT_TTS_RATE'' \<mapsto> ''1'', ''MICROSOFT_TTS_VOLUME'' \<mapsto> ''70'']"

definition env_elevenlabs :: env where
  "env_elevenlabs = [''ELEVENLABS_API_KEY'' \<mapsto> ''k'', ''ELEVENLABS_VOICE_ID'' \<mapsto> ''v'',
     ''ELEVENLABS_MODEL_ID'' \<mapsto> ''eleven_flash_v2_5'']"

definition env_agora_only :: env where
  "env_agora_only = [''AGORA_APP_ID'' \<mapsto> ''app'', ''AGORA_APP_CERTIFICATE'' \<mapsto> ''cert'']"

text \<open>A platform for concrete runs: number functions that are exact on the
  non-negative integers written in decimal, a signing primitive and a provisioning
  service that succeed, \<open>Math.random()\<close> returning one half (\<open>0.i\<close> in radix 36).\<close>

definition digits_value :: "string \<Rightarrow> nat" where
  "digits_value s = foldl (\<lambda>a c. 10 * a + (of_char c - 48)) 0 s"

fun sample_toString :: "number \<Rightarrow> string" where
  "sample_toString (Finite r) = decimal (nat \<lfloor>r\<rfloor>)"
| "sample_toString NaN = ''NaN''"
| "sample_toString PosInfinity = ''Infinity''"
| "sample_toString NegInfinity = ''-Infinity''"

definition sample_parse :: "string \<Rightarrow> number" where
  "sample_parse s = (if test_digits s then Finite (of_nat (digits_value s)) else NaN)"

definition sample_agent :: json where
  "sample_agent = JObj [(''agent_id'', JStr ''A42''), (''create_ts'', JNum (Finite 1700000000)),
                        (''state'', JStr ''RUNNING'')]"

definition sample_platform :: platform where
  "sample_platform = \<lparr>
     parseInt = sample_parse,
     parseFloat = sample_parse,
     numberToString = sample_toString,
     buildTokenWithUid = (\<lambda>a. Inr ''007token''),
     fetch = (\<lambda>c. Inr \<lparr>up_status = 200, up_text = ''{}'', up_json = Inr sample_agent\<rparr>),
     date_now = 1700000000123,
     date_now_name = 1700000000120,
     random36 = ''0.i''\<rparr>"

text \<open>The same platform with the provisioning service answering 503.\<close>

definition platform_503 :: platform where
  "platform_503 = sample_platform\<lparr>fetch :=
     (\<lambda>c. Inr \<lparr>up_status = 503, up_text = ''Service Unavailable'',
                up_json = Inl (Error ''Unexpected token S in JSON'')\<rparr>)\<rparr>"

definition post :: "string \<Rightarrow> json \<Rightarrow> request" where
  "post pth b = \<lparr>req_method = ''POST'', path = pth, is_json = True, body = b,
                 query_uid = None, query_channel = None\<rparr>"

definition get_token :: request where
  "get_token = \<lparr>req_method = ''GET'', path = ''/token'', is_json = False, body = JUndefined,
                 query_uid = None, query_channel = None\<rparr>"

definition invite_1234 :: json where
  "invite_1234 = JObj [(''requester_id'', JStr ''1234''), (''channel_name'', JStr ''demo-chan'')]"

definition invite_user_1234 :: json where
  "invite_user_1234 =
     JObj [(''requester_id'', JStr ''user-1234''), (''channel_name'', JStr ''demo-chan'')]"

text \<open>An invite whose body also carries values for fields that the handler does not
  read.\<close>

definition invite_with_overrides :: request where
  "invite_with_overrides = post ''/agent/invite''
     (JObj [(''requester_id'', JStr ''1234''), (''channel_name'', JStr ''demo-chan''),
            (''idle_timeout'', JNum (Finite 99)),
            (''advanced_features'', JObj [(''enable_aivad'', JBool True), (''enable_bhvs'', JBool True)])])"

text \<open>Inbound requests: a \<open>POST\<close> with a JSON text, a \<open>POST\<close> without a body, and an
  \<open>OPTIONS\<close> request.\<close>

definition post_json :: "string \<Rightarrow> json \<Rightarrow> inbound" where
  "post_json pth v = \<lparr>in_method = ''POST'', in_path = pth, json_content_type = True,
                      sent = JsonText v, in_query_uid = None, in_query_channel = None\<rparr>"

definition post_empty :: "string \<Rightarrow> inbound" where
  "post_empty pth = \<lparr>in_method = ''POST'', in_path = pth, json_content_type = False,
                     sent = NoBody, in_query_uid = None, in_query_channel = None\<rparr>"

definition options_request :: "string \<Rightarrow> inbound" where
  "options_request pth = \<lparr>in_method = ''OPTIONS'', in_path = pth, json_content_type = False,
                          sent = NoBody, in_query_uid = None, in_query_channel = None\<rparr>"

section \<open>Auxiliary facts\<close>

lemma is_digit_digit_char: "d < 10 \<Longrightarrow> is_digit (digit_char d)"
proof -
  assume "d < 10"
  then have "d \<in> {0, 1, 2, 3, 4, 5, 6, 7, 8, 9}" by auto
  then show ?thesis by (auto simp add: is_digit_def digit_char_def)
qed

lemma decimal_503: "decimal 503 = ''503''"
  by (simp add: decimal.simps digit_char_def)

lemma decimal_nonempty: "decimal n \<noteq> []"
  by (subst decimal.simps) simp

lemma decimal_all_digits: "list_all is_digit (decimal n)"
proof (induction n rule: decimal.induct)
  case (1 n)
  show ?case
  proof (cases "n < 10")
    case True
    then show ?thesis by (subst decimal.simps) (simp add: is_digit_digit_char)
  next
    case False
    with 1 show ?thesis by (subst decimal.simps) (simp add: is_digit_digit_char)
  qed
qed

text \<open>\<open>trim\<close> leaves nothing exactly when every character is white space.\<close>

lemma trim_empty_iff: "trim s = [] \<longleftrightarrow> (\<forall>c \<in> set s. is_space c)"
proof
  assume "trim s = []"
  then have a: "\<forall>c \<in> set (dropWhile is_space s). is_space c"
    by (simp add: trim_def dropWhile_eq_Nil_conv)
  have "dropWhile is_space s = []"
  proof (rule ccontr)
    assume n: "dropWhile is_space s \<noteq> []"
    then have "\<not> is_space (hd (dropWhile is_space s))" by (rule hd_dropWhile)
    moreover have "hd (dropWhile is_space s) \<in> set (dropWhile is_space s)" using n by simp
    ultimately show False using a by blast
  qed
  then show "\<forall>c \<in> set s. is_space c" by (simp add: dropWhile_eq_Nil_conv)
next
  assume "\<forall>c \<in> set s. is_space c"
  then show "trim s = []" by (auto simp add: trim_def dest: set_dropWhileD)
qed

text \<open>A body with a defined property is an object with at least one key, so it passes
  the test for an empty body.\<close>

lemma get_prop_defined_body:
  "get_prop b k \<noteq> JUndefined \<Longrightarrow> truthy b \<and> keys_length b \<noteq> 0"
proof (cases b)
  case (JObj kvs)
  assume "get_prop b k \<noteq> JUndefined"
  with JObj have "map_of kvs k \<noteq> None" by (auto split: option.splits)
  then have "kvs \<noteq> []" by auto
  then have "map fst kvs \<noteq> []" by simp
  then have "remdups (map fst kvs) \<noteq> []" by simp
  with JObj show ?thesis by simp
qed simp_all

lemma truthy_defined: "truthy v \<Longrightarrow> v \<noteq> JUndefined"
  by auto

text \<open>The invite branch of \<open>validateRequestBody\<close> once both fields are truthy: the
  format of \<open>requester_id\<close> is checked before the type and length of \<open>channel_name\<close>.\<close>

lemma validate_invite_unfold:
  assumes "req_method req = ''POST''" "path req = ''/agent/invite''"
    "truthy (get_prop (body req) ''channel_name'')"
    "truthy (get_prop (body req) ''requester_id'')"
  shows "validateRequestBody req =
     (if \<not> requester_id_passes (get_prop (body req) ''requester_id'')
      then (case get_prop (body req) ''requester_id'' of
              JStr s \<Rightarrow> Some (error_response 400 ''requester_id cannot be empty'')
            | JNum n \<Rightarrow> Some (error_response 400
                  ''requester_id must be a positive integer when provided as a number'')
            | _ \<Rightarrow> Some (error_response 400 ''requester_id must be a string or number''))
      else (case get_prop (body req) ''channel_name'' of
              JStr c \<Rightarrow>
                (if length c < 3 \<or> length c > 64
                 then Some (error_response 400
                   ''channel_name length must be between 3 and 64 characters'')
                 else None)
            | _ \<Rightarrow> Some (error_response 400 ''channel_name must be a string'')))"
proof -
  from assms(3) have "get_prop (body req) ''channel_name'' \<noteq> JUndefined" by (rule truthy_defined)
  then have b: "truthy (body req)" "keys_length (body req) \<noteq> 0"
    using get_prop_defined_body by blast+
  show ?thesis
    using assms b
    by (cases "get_prop (body req) ''requester_id''")
       (simp_all add: validateRequestBody_def Let_def)
qed

section \<open>Text-to-speech configuration\<close>

text \<open>
  Claim C3, as amended. \<open>getTTSConfig\<close> returns a Microsoft-shaped configuration exactly
  when the vendor is \<open>microsoft\<close> and all five of the key, region, voice name, rate and
  volume variables are set to a non-empty value; in every other case for that vendor it
  fails with the error about missing Microsoft variables. It returns an ElevenLabs-shaped
  configuration exactly when the vendor is \<open>elevenlabs\<close> and the key, voice id and model
  id are set to a non-empty value, and otherwise fails for that vendor with the error
  about missing ElevenLabs variables. Any other vendor fails with the unsupported-vendor
  error that names it.
\<close>

theorem getTTSConfig_cases:
  "(is_microsoft (getTTSConfig pf e v) \<longleftrightarrow>
      v = ''microsoft'' \<and> \<not> unset e ''MICROSOFT_TTS_KEY'' \<and> \<not> unset e ''MICROSOFT_TTS_REGION'' \<and>
      \<not> unset e ''MICROSOFT_TTS_VOICE_NAME'' \<and> \<not> unset e ''MICROSOFT_TTS_RATE'' \<and>
      \<not> unset e ''MICROSOFT_TTS_VOLUME'') \<and>
   (v = ''microsoft'' \<and> \<not> is_microsoft (getTTSConfig pf e v) \<longrightarrow>
      getTTSConfig pf e v = Inl (Error ''Missing Microsoft TTS environment variables'')) \<and>
   (is_elevenlabs (getTTSConfig pf e v) \<longleftrightarrow>
      v = ''elevenlabs'' \<and> \<not> unset e ''ELEVENLABS_API_KEY'' \<and> \<not> unset e ''ELEVENLABS_VOICE_ID'' \<and>
      \<not> unset e ''ELEVENLABS_MODEL_ID'') \<and>
   (v = ''elevenlabs'' \<and> \<not> is_elevenlabs (getTTSConfig pf e v) \<longrightarrow>
      getTTSConfig pf e v = Inl (Error ''Missing ElevenLabs environment variables'')) \<and>
   (v \<noteq> ''microsoft'' \<and> v \<noteq> ''elevenlabs'' \<longrightarrow>
      getTTSConfig pf e v = Inl (Error (''Unsupported TTS vendor: '' @ v)))"
  by (simp add: getTTSConfig_def)

text \<open>The five cases of \<open>getTTSConfig_cases\<close> on sample configurations.\<close>

theorem getTTSConfig_cases_witness:
  "is_microsoft (getTTSConfig sample_parse env_microsoft ''microsoft'') \<and>
   getTTSConfig sample_parse env_no_rate ''microsoft'' =
     Inl (Error ''Missing Microsoft TTS environment variables'') \<and>
   is_elevenlabs (getTTSConfig sample_parse env_elevenlabs ''elevenlabs'') \<and>
   getTTSConfig sample_parse env_microsoft ''elevenlabs'' =
     Inl (Error ''Missing ElevenLabs environment variables'') \<and>
   getTTSConfig sample_parse env_microsoft ''google'' = Inl (Error ''Unsupported TTS vendor: google'')"
  using getTTSConfig_cases [of sample_parse env_microsoft "''microsoft''"]
    getTTSConfig_cases [of sample_parse env_no_rate "''microsoft''"]
    getTTSConfig_cases [of sample_parse env_elevenlabs "''elevenlabs''"]
    getTTSConfig_cases [of sample_parse env_microsoft "''elevenlabs''"]
    getTTSConfig_cases [of sample_parse env_microsoft "''google''"]
  by (simp add: env_microsoft_def env_no_rate_def env_elevenlabs_def unset_def)

text \<open>
  Claim C3 as stated fails: with the key, the region and the voice name set but no
  speaking rate, the vendor \<open>microsoft\<close> gets the error, not a configuration.
\<close>

theorem getTTSConfig_three_fields_counterexample:
  "getTTSConfig sample_parse env_no_rate ''microsoft'' =
     Inl (Error ''Missing Microsoft TTS environment variables'') \<and>
   \<not> (is_microsoft (getTTSConfig sample_parse env_no_rate ''microsoft'') \<longleftrightarrow>
        \<not> unset env_no_rate ''MICROSOFT_TTS_KEY'' \<and> \<not> unset env_no_rate ''MICROSOFT_TTS_REGION'' \<and>
        \<not> unset env_no_rate ''MICROSOFT_TTS_VOICE_NAME'')"
  by (simp add: getTTSConfig_def env_no_rate_def unset_def)

section \<open>Validation of an invite request\<close>

text \<open>
  Claim C2, as amended. For a \<open>POST /agent/invite\<close> request whose \<open>channel_name\<close> is a
  string of 3 to 64 characters: when \<open>requester_id\<close> is a string, validation accepts
  exactly when the string, trimmed of white space, is not empty; when \<open>requester_id\<close> is
  a number other than zero, validation accepts exactly when the number is an integer and
  not negative.
\<close>

theorem requester_id_validation:
  assumes "req_method req = ''POST''" and "path req = ''/agent/invite''"
    and "get_prop (body req) ''channel_name'' = JStr c" and "3 \<le> length c" and "length c \<le> 64"
  shows "(get_prop (body req) ''requester_id'' = JStr s \<longrightarrow>
            (validateRequestBody req = None \<longleftrightarrow> trim s \<noteq> [])) \<and>
         (get_prop (body req) ''requester_id'' = JNum n \<and> n \<noteq> Finite 0 \<longrightarrow>
            (validateRequestBody req = None \<longleftrightarrow> isInteger n \<and> \<not> less_zero n))"
proof -
  have ch: "truthy (get_prop (body req) ''channel_name'')" using assms(3,4) by auto
  then have "get_prop (body req) ''channel_name'' \<noteq> JUndefined" by (rule truthy_defined)
  then have b: "truthy (body req)" "keys_length (body req) \<noteq> 0"
    using get_prop_defined_body by blast+
  have str: "validateRequestBody req = None \<longleftrightarrow> trim s \<noteq> []"
    if "get_prop (body req) ''requester_id'' = JStr s"
  proof (cases "s = []")
    case True
    then show ?thesis using that assms b by (simp add: validateRequestBody_def trim_def)
  next
    case False
    then have "truthy (get_prop (body req) ''requester_id'')" using that by simp
    then show ?thesis using that assms ch by (simp add: validate_invite_unfold)
  qed
  have num: "validateRequestBody req = None \<longleftrightarrow> isInteger n \<and> \<not> less_zero n"
    if "get_prop (body req) ''requester_id'' = JNum n" and "n \<noteq> Finite 0"
  proof (cases "truthy (JNum n)")
    case True
    then show ?thesis using that assms ch by (simp add: validate_invite_unfold)
  next
    case False
    then have "n = NaN" using that(2) by (cases n) auto
    then show ?thesis using that assms b by (simp add: validateRequestBody_def)
  qed
  show ?thesis using str num by blast
qed

text \<open>\<open>requester_id_validation\<close> at \<open>user-1234\<close>, at the number 1234 and at the
  number -3, each with the channel \<open>demo-chan\<close>.\<close>

theorem requester_id_validation_witness:
  "validateRequestBody (post ''/agent/invite''
      (JObj [(''requester_id'', JStr ''user-1234''), (''channel_name'', JStr ''demo-chan'')])) = None \<and>
   validateRequestBody (post ''/agent/invite''
      (JObj [(''requester_id'', JNum (Finite 1234)), (''channel_name'', JStr ''demo-chan'')])) = None \<and>
   validateRequestBody (post ''/agent/invite''
      (JObj [(''requester_id'', JNum (Finite (- 3))), (''channel_name'', JStr ''demo-chan'')])) \<noteq> None"
  using requester_id_validation [of "post ''/agent/invite''
      (JObj [(''requester_id'', JStr ''user-1234''), (''channel_name'', JStr ''demo-chan'')])"
      "''demo-chan''" "''user-1234''" NaN]
    requester_id_validation [of "post ''/agent/invite''
      (JObj [(''requester_id'', JNum (Finite 1234)), (''channel_name'', JStr ''demo-chan'')])"
      "''demo-chan''" "[]" "Finite 1234"]
    requester_id_validation [of "post ''/agent/invite''
      (JObj [(''requester_id'', JNum (Finite (- 3))), (''channel_name'', JStr ''demo-chan'')])"
      "''demo-chan''" "[]" "Finite (- 3)"]
  by (simp add: post_def trim_def is_space_def)

text \<open>
  Claim C2 as stated fails twice: the number 0 is an integer and not negative, and the
  string of three spaces is not empty, yet both requests are rejected.
\<close>

theorem requester_id_zero_and_blank_counterexample:
  "isInteger (Finite 0) \<and> \<not> less_zero (Finite 0) \<and>
   validateRequestBody (post ''/agent/invite''
      (JObj [(''requester_id'', JNum (Finite 0)), (''channel_name'', JStr ''demo-chan'')])) =
     Some (error_response 400 ''requester_id is required'') \<and>
   ''   '' \<noteq> [] \<and>
   validateRequestBody (post ''/agent/invite''
      (JObj [(''requester_id'', JStr ''   ''), (''channel_name'', JStr ''demo-chan'')])) =
     Some (error_response 400 ''requester_id cannot be empty'')"
  by (simp add: validateRequestBody_def post_def trim_def is_space_def)

lemma in_channel_name_errors:
  "r \<in> set channel_name_errors \<Longrightarrow>
     \<exists>m. r = error_response 400 m \<and> startsWith m ''channel_name''"
  by (auto simp add: channel_name_errors_def startsWith_def)

lemma requester_id_passes_truthy: "requester_id_passes v \<Longrightarrow> truthy v"
  by (cases v) (auto simp add: trim_def)

lemma validateRequestBody_status:
  "validateRequestBody req = Some r \<Longrightarrow> status r = 400"
  by (auto simp add: validateRequestBody_def Let_def error_response_def
      split: if_splits json.splits option.splits)

text \<open>
  Claim C5, as amended. For every \<open>POST\<close> request whose path is \<open>/agent/invite\<close>,
  validation accepts only if \<open>channel_name\<close> is a string of 3 to 64 characters, and any
  other \<open>channel_name\<close> is rejected with status 400. The error is one of the three about
  \<open>channel_name\<close>, each of which starts with that name, in two cases: when
  \<open>requester_id\<close> passes its own checks, where validation accepts exactly when
  \<open>channel_name\<close> is a string of 3 to 64 characters; and when \<open>requester_id\<close> is truthy
  and \<open>channel_name\<close> is falsy, where the error is that \<open>channel_name\<close> is required,
  whatever the format of \<open>requester_id\<close>.
\<close>

theorem channel_name_validation:
  assumes "req_method req = ''POST''" and "path req = ''/agent/invite''"
  shows "(validateRequestBody req = None \<longrightarrow>
            (\<exists>c. get_prop (body req) ''channel_name'' = JStr c \<and> 3 \<le> length c \<and> length c \<le> 64)) \<and>
         (\<not> (\<exists>c. get_prop (body req) ''channel_name'' = JStr c \<and> 3 \<le> length c \<and> length c \<le> 64) \<longrightarrow>
            (\<exists>r. validateRequestBody req = Some r \<and> status r = 400)) \<and>
         (requester_id_passes (get_prop (body req) ''requester_id'') \<longrightarrow>
            (if \<exists>c. get_prop (body req) ''channel_name'' = JStr c \<and> 3 \<le> length c \<and> length c \<le> 64
             then validateRequestBody req = None
             else \<exists>r \<in> set channel_name_errors. validateRequestBody req = Some r)) \<and>
         (truthy (get_prop (body req) ''requester_id'') \<and>
          \<not> truthy (get_prop (body req) ''channel_name'') \<longrightarrow>
            validateRequestBody req = Some (error_response 400 ''channel_name is required''))"
proof -
  let ?ch = "get_prop (body req) ''channel_name''"
  let ?rq = "get_prop (body req) ''requester_id''"
  let ?good = "\<exists>c. ?ch = JStr c \<and> 3 \<le> length c \<and> length c \<le> 64"
  have accepted: "?good" if "validateRequestBody req = None"
  proof -
    from that assms have t: "truthy ?rq \<and> truthy ?ch"
      by (auto simp add: validateRequestBody_def Let_def split: if_splits)
    with that assms show ?thesis
      by (cases ?ch) (auto simp add: validate_invite_unfold split: if_splits json.splits)
  qed
  have rejected: "\<exists>r. validateRequestBody req = Some r \<and> status r = 400" if "\<not> ?good"
  proof -
    from that accepted have "validateRequestBody req \<noteq> None" by blast
    then obtain r where "validateRequestBody req = Some r" by blast
    then show ?thesis using validateRequestBody_status by blast
  qed
  have passes: "if ?good then validateRequestBody req = None
      else \<exists>r \<in> set channel_name_errors. validateRequestBody req = Some r"
    if p: "requester_id_passes ?rq"
  proof (cases "truthy ?ch")
    case True
    with assms p requester_id_passes_truthy [OF p] show ?thesis
      by (cases ?ch) (auto simp add: validate_invite_unfold channel_name_errors_def)
  next
    case False
    from p have "?rq \<noteq> JUndefined" using requester_id_passes_truthy truthy_defined by blast
    then have b: "truthy (body req)" "keys_length (body req) \<noteq> 0"
      using get_prop_defined_body by blast+
    have "validateRequestBody req = Some (error_response 400 ''channel_name is required'')"
      using False assms b requester_id_passes_truthy [OF p]
      by (simp add: validateRequestBody_def Let_def)
    moreover have "\<not> ?good" using False by auto
    ultimately show ?thesis by (simp add: channel_name_errors_def)
  qed
  have missing: "validateRequestBody req = Some (error_response 400 ''channel_name is required'')"
    if t: "truthy ?rq" and f: "\<not> truthy ?ch"
  proof -
    from t have "?rq \<noteq> JUndefined" by (rule truthy_defined)
    then have b: "truthy (body req)" "keys_length (body req) \<noteq> 0"
      using get_prop_defined_body by blast+
    show ?thesis using t f assms b by (simp add: validateRequestBody_def Let_def)
  qed
  show ?thesis using accepted rejected passes missing by blast
qed

text \<open>\<open>channel_name_validation\<close> at the channels \<open>demo-chan\<close> and \<open>ab\<close> with the
  requester \<open>1234\<close>, and at a blank requester without a channel.\<close>

theorem channel_name_validation_witness:
  "validateRequestBody (post ''/agent/invite''
      (JObj [(''requester_id'', JStr ''1234''), (''channel_name'', JStr ''demo-chan'')])) = None \<and>
   validateRequestBody (post ''/agent/invite''
      (JObj [(''requester_id'', JStr ''1234''), (''channel_name'', JStr ''ab'')]))
     \<in> set (map Some channel_name_errors) \<and>
   validateRequestBody (post ''/agent/invite'' (JObj [(''requester_id'', JStr ''   '')])) =
     Some (error_response 400 ''channel_name is required'')"
  using channel_name_validation [of "post ''/agent/invite''
      (JObj [(''requester_id'', JStr ''1234''), (''channel_name'', JStr ''demo-chan'')])"]
    channel_name_validation [of "post ''/agent/invite''
      (JObj [(''requester_id'', JStr ''1234''), (''channel_name'', JStr ''ab'')])"]
    channel_name_validation [of "post ''/agent/invite'' (JObj [(''requester_id'', JStr ''   '')])"]
  by (auto simp add: post_def trim_def is_space_def)

text \<open>
  Claim C5 as stated fails: a request with the two-character channel \<open>ab\<close> and no
  \<open>requester_id\<close>, and a request with the number 5 as channel and a blank
  \<open>requester_id\<close>, are rejected with an error about \<open>requester_id\<close>, which is none of
  the errors about \<open>channel_name\<close>.
\<close>

theorem channel_name_error_counterexample:
  "validateRequestBody (post ''/agent/invite'' (JObj [(''channel_name'', JStr ''ab'')])) =
     Some (error_response 400 ''requester_id is required'') \<and>
   validateRequestBody (post ''/agent/invite''
      (JObj [(''requester_id'', JStr ''   ''), (''channel_name'', JNum (Finite 5))])) =
     Some (error_response 400 ''requester_id cannot be empty'') \<and>
   error_response 400 ''requester_id is required'' \<notin> set channel_name_errors \<and>
   error_response 400 ''requester_id cannot be empty'' \<notin> set channel_name_errors"
  by (simp add: validateRequestBody_def post_def trim_def is_space_def channel_name_errors_def
      error_response_def)

section \<open>Validation of a remove request\<close>

lemma validateContentType_status:
  "validateContentType req = Some r \<Longrightarrow> status r = 415"
  by (auto simp add: validateContentType_def error_response_def split: if_splits)

text \<open>On the exact path \<open>/agent/remove\<close> a falsy or non-string \<open>agent_id\<close> is rejected by
  \<open>validateRequestBody\<close>, and the router then makes no call.\<close>

lemma remove_rejected:
  assumes "req_method req = ''POST''" and "path req = ''/agent/remove''"
    and "\<not> truthy (get_prop (body req) ''agent_id'') \<or>
         typeof (get_prop (body req) ''agent_id'') \<noteq> ''string''"
  shows "\<exists>m. validateRequestBody req = Some (error_response 400 m)"
  using assms by (auto simp add: validateRequestBody_def Let_def)

lemma remove_exact_path_no_call:
  assumes "req_method req = ''POST''" and "path req = ''/agent/remove''"
    and "\<not> truthy (get_prop (body req) ''agent_id'') \<or>
         typeof (get_prop (body req) ''agent_id'') \<noteq> ''string''"
  shows "snd (handle_request p e req) = []"
proof -
  from assms obtain m where "validateRequestBody req = Some (error_response 400 m)"
    using remove_rejected by blast
  then show ?thesis
    by (simp add: handle_request_def split: option.splits)
qed

text \<open>
  Claim C8 says that a remove request whose \<open>agent_id\<close> is missing or is not a string
  fails validation with a client-side error and never reaches the provisioning service.
  The code does not keep this. The router serves \<open>/agent/remove/\<close> with the handler of
  \<open>/agent/remove\<close>, while \<open>validateRequestBody\<close> compares the path with the exact string
  \<open>/agent/remove\<close> and lets any other path through; the handler tests \<open>!agent_id\<close> only.
  A \<open>POST /agent/remove/\<close> with the body \<open>{agent_id: 5}\<close> passes validation, the handler
  calls \<open>.../agents/5/leave\<close>, and the client receives \<open>{success: true}\<close>.
\<close>

theorem remove_trailing_slash_reaches_upstream:
  "typeof (JNum (Finite 5)) \<noteq> ''string'' \<and>
   validateRequestBody (post ''/agent/remove/'' (JObj [(''agent_id'', JNum (Finite 5))])) = None \<and>
   app sample_platform env_microsoft
       (post_json ''/agent/remove/'' (JObj [(''agent_id'', JNum (Finite 5))])) =
     (\<lparr>status = 200, payload = JObj [(''success'', JBool True)]\<rparr>,
      [Fetch \<lparr>call_url = ''https://api.example/v2/projects/app/agents/5/leave'',
              credential = ''id:secret'', call_body = None\<rparr>])"
  by (simp add: app_def cors_def express_json_def delivered_def post_json_def post_def
      handle_request_def validateEnvironment_def validateContentType_def validateRequestBody_def
      dispatch_def route_matches_def lower_char_def is_upper_def get_or_head_def
      remove_handler_def destructurable_def remove_call_def Let_def ok_def
      env_microsoft_def env_text_def unset_def startsWith_def sample_platform_def
      decimal.simps digit_char_def)

text \<open>The interaction of that run, read off \<open>remove_trailing_slash_reaches_upstream\<close>.\<close>

theorem remove_trailing_slash_reaches_upstream_witness:
  "snd (app sample_platform env_microsoft
       (post_json ''/agent/remove/'' (JObj [(''agent_id'', JNum (Finite 5))]))) =
     [Fetch \<lparr>call_url = ''https://api.example/v2/projects/app/agents/5/leave'',
             credential = ''id:secret'', call_body = None\<rparr>]"
  using remove_trailing_slash_reaches_upstream by simp

section \<open>Order of the configuration check\<close>

lemma validateEnvironment_complete:
  "validateEnvironment e req = None \<longleftrightarrow>
     agora_configured e \<and> (startsWith (path req) ''/agent'' \<longrightarrow> agent_configured e)"
  by (auto simp add: validateEnvironment_def agora_configured_def agent_configured_def
      tts_configured_def unset_def split: option.splits)

lemma validateEnvironment_500:
  "validateEnvironment e req = Some r \<Longrightarrow> \<exists>m. r = error_response 500 m"
  by (auto simp add: validateEnvironment_def split: if_splits)

lemma validateEnvironment_path:
  "path req' = path req \<Longrightarrow> validateEnvironment e req' = validateEnvironment e req"
  by (simp add: validateEnvironment_def)

lemma express_json_path: "express_json raw = Inr req \<Longrightarrow> path req = in_path raw"
  by (auto simp add: express_json_def delivered_def split: sent_body.splits if_splits)

text \<open>
  Claim C9, as amended. \<open>cors()\<close> and \<open>express.json()\<close> come before the router. For
  every request that they pass on (not an \<open>OPTIONS\<close> request, no unreadable JSON body),
  \<open>validateEnvironment\<close> runs before the other validation steps and lets the request
  pass exactly when the identity-provider credentials are set and, for a path that
  starts with \<open>/agent\<close> as written, the provisioning-service credentials, the LLM
  endpoint and token and the selected vendor's variables are set too. When that fails,
  the response is a 500 error, nothing else happens, and the response is the same for
  every such request with the same path, whatever its method, content type and body.
\<close>

theorem configuration_checked_first:
  assumes "cors raw = None" and "express_json raw = Inr req"
  shows "(validateEnvironment e req = None \<longleftrightarrow>
            agora_configured e \<and> (startsWith (in_path raw) ''/agent'' \<longrightarrow> agent_configured e)) \<and>
         (\<not> (agora_configured e \<and> (startsWith (in_path raw) ''/agent'' \<longrightarrow> agent_configured e)) \<longrightarrow>
            (\<exists>m. app p e raw = (error_response 500 m, [])) \<and>
            (cors raw' = None \<and> express_json raw' = Inr req' \<and> in_path raw' = in_path raw \<longrightarrow>
               app p' e raw' = app p e raw))"
proof -
  have pth: "path req = in_path raw" using assms(2) by (rule express_json_path)
  have a: "validateEnvironment e req = None \<longleftrightarrow>
      agora_configured e \<and> (startsWith (in_path raw) ''/agent'' \<longrightarrow> agent_configured e)"
    using validateEnvironment_complete [of e req] pth by simp
  have b: "(\<exists>m. app p e raw = (error_response 500 m, [])) \<and>
      (cors raw' = None \<and> express_json raw' = Inr req' \<and> in_path raw' = in_path raw \<longrightarrow>
         app p' e raw' = app p e raw)"
    if "\<not> (agora_configured e \<and> (startsWith (in_path raw) ''/agent'' \<longrightarrow> agent_configured e))"
  proof -
    from that a obtain r where r: "validateEnvironment e req = Some r" by auto
    then obtain m where "r = error_response 500 m" using validateEnvironment_500 by blast
    with r assms have one: "app p e raw = (error_response 500 m, [])"
      by (simp add: app_def handle_request_def)
    have "app p' e raw' = app p e raw"
      if c: "cors raw' = None" and j: "express_json raw' = Inr req'" and q: "in_path raw' = in_path raw"
    proof -
      have "path req' = path req" using express_json_path [OF j] pth q by simp
      then have "validateEnvironment e req' = Some r"
        using r validateEnvironment_path [of req' req e] by simp
      then show ?thesis using c j r assms by (simp add: app_def handle_request_def)
    qed
    with one show ?thesis by blast
  qed
  show ?thesis using a b by blast
qed

text \<open>\<open>configuration_checked_first\<close> on an invite without \<open>LLM_URL\<close>: a valid request
  and one with no body and no JSON content type get the same 500 response.\<close>

theorem configuration_checked_first_witness:
  "app sample_platform (env_microsoft(''LLM_URL'' := None)) (post_json ''/agent/invite'' invite_1234) =
     (error_response 500 ''LLM configuration is not set'', []) \<and>
   app platform_503 (env_microsoft(''LLM_URL'' := None)) (post_empty ''/agent/invite'') =
     (error_response 500 ''LLM configuration is not set'', [])"
  using configuration_checked_first [of "post_json ''/agent/invite'' invite_1234"
      "post ''/agent/invite'' invite_1234" "env_microsoft(''LLM_URL'' := None)" sample_platform
      "post_empty ''/agent/invite''"
      "(post ''/agent/invite'' (JObj []))\<lparr>is_json := False\<rparr>" platform_503]
  by (simp add: cors_def express_json_def delivered_def post_json_def post_empty_def post_def
      invite_1234_def agora_configured_def agent_configured_def env_microsoft_def unset_def
      startsWith_def app_def handle_request_def validateEnvironment_def)

text \<open>
  Claim C9 as stated fails: with the identity-provider credentials only, a \<open>POST /ping\<close>
  is not answered with a configuration error; it reaches the content-type check (415)
  and, with a JSON content type, the body check (400). With no configuration at all, an
  \<open>OPTIONS\<close> request is answered 204 by \<open>cors()\<close>.
\<close>

theorem configuration_counterexample:
  "\<not> agent_configured env_agora_only \<and>
   app sample_platform env_agora_only (post_empty ''/ping'') =
     (error_response 415 ''Unsupported Media Type. Content-Type must be application/json'', []) \<and>
   app sample_platform env_agora_only (post_json ''/ping'' (JObj [])) =
     (error_response 400 ''Request body is required'', []) \<and>
   \<not> agora_configured (\<lambda>k. None) \<and>
   app sample_platform (\<lambda>k. None) (options_request ''/agent/invite'') =
     (\<lparr>status = 204, payload = JUndefined\<rparr>, [])"
  by (simp add: agent_configured_def agora_configured_def env_agora_only_def unset_def app_def
      cors_def express_json_def delivered_def post_empty_def post_json_def options_request_def
      handle_request_def validateEnvironment_def validateContentType_def validateRequestBody_def
      startsWith_def)

section \<open>Handlers and their interactions\<close>

lemma validated_invite_fields:
  assumes "req_method req = ''POST''" and "path req = ''/agent/invite''"
    and "validateRequestBody req = None"
  shows "requester_id_passes (get_prop (body req) ''requester_id'') \<and>
         (\<exists>c. get_prop (body req) ''channel_name'' = JStr c \<and> 3 \<le> length c \<and> length c \<le> 64)"
proof -
  from assms have t: "truthy (get_prop (body req) ''requester_id'')"
      "truthy (get_prop (body req) ''channel_name'')"
    by (auto simp add: validateRequestBody_def Let_def split: if_splits)
  with assms show ?thesis
    by (cases "get_prop (body req) ''channel_name''")
       (auto simp add: validate_invite_unfold split: if_splits json.splits)
qed

text \<open>A \<open>requester_id\<close> that passes validation is a string or a number, and its
  \<open>toString()\<close> does not throw.\<close>

lemma passes_toString:
  "requester_id_passes v \<Longrightarrow>
     (\<exists>s. v = JStr s \<and> call_toString p v = Inr s) \<or>
     (\<exists>n. v = JNum n \<and> call_toString p v = Inr (numberToString p n))"
  by (cases v) auto

lemma defined_prop_destructurable: "get_prop b k \<noteq> JUndefined \<Longrightarrow> destructurable b"
  by (cases b) (auto simp add: destructurable_def)

text \<open>The routes are told apart by their paths.\<close>

lemma route_matches_exact:
  "route_matches ''/agent/invite'' ''/agent/invite''"
  "route_matches ''/agent/remove'' ''/agent/remove''"
  "route_matches ''/token'' ''/token''"
  by (simp_all add: route_matches_def lower_char_def is_upper_def)

lemma route_matches_disjoint:
  "route_matches ''/agent/invite'' pth \<Longrightarrow> \<not> route_matches ''/agent/remove'' pth"
  "route_matches ''/agent/invite'' pth \<Longrightarrow> \<not> route_matches ''/token'' pth"
  by (auto simp add: route_matches_def)

lemma invite_handler_events:
  "snd (invite_handler p e b) = [] \<or>
   snd (invite_handler p e b) = [Sign (invite_token_args p e b)] \<or>
   (\<exists>tok cfg s. call_toString p (get_prop b ''requester_id'') = Inr s \<and>
      snd (invite_handler p e b) =
        [Sign (invite_token_args p e b),
         Fetch (invite_call e (invite_request_body p e b tok cfg s))])"
  by (auto simp add: invite_handler_def Let_def split: sum.splits)

lemma invite_handler_signs:
  "destructurable b \<Longrightarrow> Sign (invite_token_args p e b) \<in> set (snd (invite_handler p e b))"
  by (auto simp add: invite_handler_def Let_def split: sum.splits)

lemma remove_handler_events:
  "snd (remove_handler p e b) = [] \<or>
   (\<exists>a. snd (remove_handler p e b) = [Fetch (remove_call e a)])"
  by (auto simp add: remove_handler_def Let_def split: sum.splits)

lemma token_route_events:
  "snd (token_route p e req) = [] \<or> snd (token_route p e req) = [Sign (token_token_args p e req)]"
  by (auto simp add: token_route_def token_handler_def Let_def split: sum.splits option.splits)

text \<open>Where the interactions of the router come from.\<close>

lemma handle_request_events:
  assumes "handle_request p e req = (r, evs)"
  shows "evs = [] \<or>
    evs = snd (token_route p e req) \<or>
    (route_matches ''/agent/invite'' (path req) \<and> evs = snd (invite_handler p e (body req))) \<or>
    (\<not> route_matches ''/agent/invite'' (path req) \<and> evs = snd (remove_handler p e (body req)))"
  using assms
  by (auto simp add: handle_request_def dispatch_def split: option.splits if_splits)

text \<open>A request that passed the validation of an invite is handed to the invite
  handler.\<close>

lemma validated_invite_dispatch:
  assumes "req_method req = ''POST''" and "path req = ''/agent/invite''"
    and "validateEnvironment e req = None" and "validateContentType req = None"
    and "validateRequestBody req = None"
  shows "handle_request p e req = invite_handler p e (body req)"
  using assms
  by (simp add: handle_request_def dispatch_def get_or_head_def route_matches_exact)

section \<open>Upstream failure of an invite\<close>

text \<open>A validated configuration for an agent route resolves to a TTS configuration.\<close>

lemma validated_tts:
  assumes "validateEnvironment e req = None" and "startsWith (path req) ''/agent''"
  shows "\<not> unset e ''TTS_VENDOR'' \<and> (\<exists>cfg. getTTSConfig pf e (env_text e ''TTS_VENDOR'') = Inr cfg)"
proof -
  from assms have "tts_configured e"
    by (simp add: validateEnvironment_complete agent_configured_def)
  then show ?thesis
    by (auto simp add: tts_configured_def getTTSConfig_def env_text_def unset_def)
qed

text \<open>
  Claim C1, as amended. For every \<open>POST /agent/invite\<close> request that passes the three
  validation steps, on a platform where signing succeeds and the provisioning service
  answers with a response whose status \<open>s\<close> is not a success status, the client response
  has status 500 and the body \<open>{error: "Failed to start conversation: s"}\<close> with no other
  field: the upstream status survives in the message only, and the upstream body is not
  passed on.
\<close>

theorem invite_upstream_failure:
  assumes "req_method req = ''POST''" and "path req = ''/agent/invite''"
    and "validateEnvironment e req = None" and "validateContentType req = None"
    and "validateRequestBody req = None"
    and "\<forall>a. \<exists>tok. buildTokenWithUid p a = Inr tok"
    and "\<forall>c. fetch p c = Inr resp" and "\<not> ok resp"
  shows "\<exists>evs. handle_request p e req =
           (\<lparr>status = 500,
             payload = JObj [(''error'',
               JStr (''Failed to start conversation: '' @ decimal (up_status resp)))]\<rparr>, evs)"
proof -
  let ?b = "body req"
  from validated_invite_fields [OF assms(1,2,5)]
  obtain c where ps: "requester_id_passes (get_prop ?b ''requester_id'')"
    and ch: "get_prop ?b ''channel_name'' = JStr c" by blast
  from ch have d: "destructurable ?b" using defined_prop_destructurable [of ?b "''channel_name''"] by simp
  from passes_toString [OF ps, of p]
  obtain s where s: "call_toString p (get_prop ?b ''requester_id'') = Inr s" by blast
  from assms(6) obtain tok where tok: "buildTokenWithUid p (invite_token_args p e ?b) = Inr tok"
    by blast
  have "startsWith (path req) ''/agent''" using assms(2) by (simp add: startsWith_def)
  from validated_tts [OF assms(3) this, of "parseFloat p"]
  obtain cfg where v: "\<not> unset e ''TTS_VENDOR''"
    and cfg: "getTTSConfig (parseFloat p) e (env_text e ''TTS_VENDOR'') = Inr cfg" by blast
  have "fst (invite_handler p e ?b) = error_response 500
      (''Failed to start conversation: '' @ decimal (up_status resp))"
    using d s tok v cfg assms(7,8) by (simp add: invite_handler_def Let_def)
  then show ?thesis
    using validated_invite_dispatch [OF assms(1-5), of p]
    by (cases "invite_handler p e ?b") (simp add: error_response_def)
qed

text \<open>\<open>invite_upstream_failure\<close> with the provisioning service answering 503.\<close>

theorem invite_upstream_failure_witness:
  "\<exists>evs. handle_request platform_503 env_microsoft (post ''/agent/invite'' invite_1234) =
     (\<lparr>status = 500, payload = JObj [(''error'', JStr ''Failed to start conversation: 503'')]\<rparr>, evs)"
  using invite_upstream_failure [of "post ''/agent/invite'' invite_1234"
      env_microsoft platform_503
      "\<lparr>up_status = 503, up_text = ''Service Unavailable'', up_json = Inl (Error ''Unexpected token S in JSON'')\<rparr>"]
  by (simp add: post_def invite_1234_def validateEnvironment_def validateContentType_def
      validateRequestBody_def env_microsoft_def unset_def startsWith_def trim_def is_space_def
      platform_503_def sample_platform_def ok_def decimal_503)

text \<open>
  Claim C1 as stated fails: when the provisioning service answers 503 with the body
  \<open>Service Unavailable\<close>, the client response has status 500, not 503, and its body has
  the \<open>error\<close> field only, without \<open>details\<close>.
\<close>

theorem invite_upstream_status_counterexample:
  "fst (handle_request platform_503 env_microsoft (post ''/agent/invite'' invite_1234)) =
     \<lparr>status = 500, payload = JObj [(''error'', JStr ''Failed to start conversation: 503'')]\<rparr>"
  by (simp add: handle_request_def dispatch_def post_def invite_1234_def validateEnvironment_def
      validateContentType_def validateRequestBody_def get_or_head_def route_matches_exact
      invite_handler_def destructurable_def getTTSConfig_def Let_def env_text_def
      env_microsoft_def unset_def startsWith_def trim_def is_space_def platform_503_def
      sample_platform_def ok_def decimal_503 error_response_def)

section \<open>The composed provisioning request\<close>

text \<open>
  Claim C4. For every invite request, the provisioning request that the handler sends
  has \<open>remote_rtc_uids\<close> equal to the one-element list of the stringified \<open>requester_id\<close>,
  and its \<open>enable_string_uid\<close> is true exactly when that string contains an ASCII letter.
\<close>

theorem enable_string_uid_iff_letter:
  assumes "Fetch c \<in> set (snd (invite_handler p e b))"
  shows "\<exists>rb s. call_body c = Some rb \<and>
           call_toString p (get_prop b ''requester_id'') = Inr s \<and>
           remote_rtc_uids (properties rb) = [s] \<and>
           (enable_string_uid (properties rb) \<longleftrightarrow> (\<exists>ch \<in> set s. is_lower ch \<or> is_upper ch))"
proof -
  from assms invite_handler_events [of p e b]
  obtain tok cfg s where s: "call_toString p (get_prop b ''requester_id'') = Inr s"
    and "c = invite_call e (invite_request_body p e b tok cfg s)" by auto
  then show ?thesis
    by (simp add: invite_call_def invite_request_body_def Let_def test_letter_def list_ex_iff)
qed

text \<open>On the sample configuration, with a signing primitive that succeeds and a string
  as \<open>requester_id\<close>, the handler reaches the call of the provisioning service.\<close>

lemma sample_invite_fetches:
  assumes "buildTokenWithUid p = (\<lambda>a. Inr ''007token'')" and "parseFloat p = sample_parse"
    and "get_prop b ''requester_id'' = JStr s" and "destructurable b"
  shows "\<exists>c. Fetch c \<in> set (snd (invite_handler p env_microsoft b))"
  using assms
  by (auto simp add: invite_handler_def Let_def getTTSConfig_def env_microsoft_def unset_def
      env_text_def split: sum.splits)

text \<open>\<open>enable_string_uid_iff_letter\<close> at the requesters \<open>1234\<close> (flag false) and
  \<open>user-1234\<close> (flag true).\<close>

theorem enable_string_uid_iff_letter_witness:
  "(\<exists>c rb. Fetch c \<in> set (snd (invite_handler sample_platform env_microsoft invite_1234)) \<and>
      call_body c = Some rb \<and> remote_rtc_uids (properties rb) = [''1234''] \<and>
      \<not> enable_string_uid (properties rb)) \<and>
   (\<exists>c rb. Fetch c \<in> set (snd (invite_handler sample_platform env_microsoft invite_user_1234)) \<and>
      call_body c = Some rb \<and> remote_rtc_uids (properties rb) = [''user-1234''] \<and>
      enable_string_uid (properties rb))"
proof -
  obtain c where c: "Fetch c \<in> set (snd (invite_handler sample_platform env_microsoft invite_1234))"
    using sample_invite_fetches [of sample_platform invite_1234 "''1234''"]
    by (auto simp add: sample_platform_def invite_1234_def destructurable_def)
  obtain d where d: "Fetch d \<in> set (snd (invite_handler sample_platform env_microsoft invite_user_1234))"
    using sample_invite_fetches [of sample_platform invite_user_1234 "''user-1234''"]
    by (auto simp add: sample_platform_def invite_user_1234_def destructurable_def)
  from enable_string_uid_iff_letter [OF c] enable_string_uid_iff_letter [OF d] c d
  show ?thesis
    by (auto simp add: invite_1234_def invite_user_1234_def is_lower_def is_upper_def)
qed

text \<open>
  Claim C10. For every request that the router takes as \<open>/agent/invite\<close>, whatever its
  body, every call that the router makes to the provisioning service carries a request
  with \<open>idle_timeout\<close> 30 and with \<open>enable_aivad\<close> and \<open>enable_bhvs\<close> both false.
\<close>

theorem invite_fixed_fields:
  assumes "route_matches ''/agent/invite'' (path req)" and "handle_request p e req = (r, evs)"
    and "Fetch c \<in> set evs"
  shows "\<exists>rb. call_body c = Some rb \<and> idle_timeout (properties rb) = 30 \<and>
           \<not> enable_aivad (advanced_features (properties rb)) \<and>
           \<not> enable_bhvs (advanced_features (properties rb))"
proof -
  from handle_request_events [OF assms(2)] assms(1,3) token_route_events [of p e req]
  have "evs = snd (invite_handler p e (body req))" by auto
  with assms(3) invite_handler_events [of p e "body req"]
  obtain tok cfg s where "c = invite_call e (invite_request_body p e (body req) tok cfg s)" by auto
  then show ?thesis
    by (simp add: invite_call_def invite_request_body_def Let_def)
qed

lemma sample_invite_with_overrides:
  "handle_request sample_platform env_microsoft invite_with_overrides =
     invite_handler sample_platform env_microsoft (body invite_with_overrides)"
  by (rule validated_invite_dispatch)
     (simp_all add: invite_with_overrides_def post_def validateEnvironment_def
        validateContentType_def validateRequestBody_def env_microsoft_def unset_def
        startsWith_def trim_def is_space_def)

text \<open>\<open>invite_fixed_fields\<close> on a body that asks for \<open>idle_timeout\<close> 99 and for both
  advanced features.\<close>

theorem invite_fixed_fields_witness:
  "\<exists>r evs c rb. handle_request sample_platform env_microsoft invite_with_overrides = (r, evs) \<and>
     Fetch c \<in> set evs \<and> call_body c = Some rb \<and> idle_timeout (properties rb) = 30 \<and>
     \<not> enable_aivad (advanced_features (properties rb)) \<and>
     \<not> enable_bhvs (advanced_features (properties rb))"
proof -
  let ?b = "body invite_with_overrides"
  obtain r evs where h: "invite_handler sample_platform env_microsoft ?b = (r, evs)"
    by (cases "invite_handler sample_platform env_microsoft ?b")
  obtain c where c: "Fetch c \<in> set evs"
    using sample_invite_fetches [of sample_platform ?b "''1234''"] h
    by (auto simp add: sample_platform_def invite_with_overrides_def post_def destructurable_def)
  have p: "route_matches ''/agent/invite'' (path invite_with_overrides)"
    by (simp add: invite_with_overrides_def post_def route_matches_exact)
  have q: "handle_request sample_platform env_microsoft invite_with_overrides = (r, evs)"
    using sample_invite_with_overrides h by simp
  from invite_fixed_fields [OF p q c] q c show ?thesis by blast
qed

section \<open>Expiry of the credentials\<close>

text \<open>
  Claim C6. Every call of the signing primitive that the router makes passes as token
  expiry and as privilege expiry the time of issue in whole seconds (\<open>Date.now()\<close>
  divided by 1000, rounded down) plus 3600. Such a call is made for the agent
  credential of every invite that passes validation, and for the client token of every
  \<open>GET /token\<close> that passes the checks of its route.
\<close>

theorem credential_expiry:
  assumes "handle_request p e req = (r, evs)"
  shows "(Sign a \<in> set evs \<longrightarrow>
            tokenExpire a = date_now p div 1000 + 3600 \<and>
            privilegeExpire a = date_now p div 1000 + 3600) \<and>
         (req_method req = ''POST'' \<and> path req = ''/agent/invite'' \<and>
          validateEnvironment e req = None \<and> validateContentType req = None \<and>
          validateRequestBody req = None \<longrightarrow>
            Sign (invite_token_args p e (body req)) \<in> set evs) \<and>
         (req_method req = ''GET'' \<and> path req = ''/token'' \<and>
          validateEnvironment e req = None \<and> validateRequest req = None \<longrightarrow>
            Sign (token_token_args p e req) \<in> set evs)"
proof -
  have expiry: "tokenExpire a = date_now p div 1000 + 3600 \<and>
      privilegeExpire a = date_now p div 1000 + 3600" if a: "Sign a \<in> set evs"
  proof -
    from handle_request_events [OF assms] a
    consider "evs = snd (token_route p e req)"
      | "evs = snd (invite_handler p e (body req))"
      | "evs = snd (remove_handler p e (body req))"
      by auto
    then show ?thesis
    proof cases
      case 1
      with a token_route_events [of p e req] have "a = token_token_args p e req" by auto
      then show ?thesis by (simp add: token_token_args_def Let_def)
    next
      case 2
      with a invite_handler_events [of p e "body req"] have "a = invite_token_args p e (body req)"
        by auto
      then show ?thesis by (simp add: invite_token_args_def Let_def)
    next
      case 3
      with a remove_handler_events [of p e "body req"] show ?thesis by auto
    qed
  qed
  have invite: "Sign (invite_token_args p e (body req)) \<in> set evs"
    if v: "req_method req = ''POST''" "path req = ''/agent/invite''"
      "validateEnvironment e req = None" "validateContentType req = None"
      "validateRequestBody req = None"
  proof -
    from validated_invite_fields [OF v(1,2,5)]
    obtain c where "get_prop (body req) ''channel_name'' = JStr c" by blast
    then have "destructurable (body req)"
      using defined_prop_destructurable [of "body req" "''channel_name''"] by simp
    from invite_handler_signs [OF this, of p e] validated_invite_dispatch [OF v, of p] assms
    show ?thesis by (metis snd_conv)
  qed
  have tok: "Sign (token_token_args p e req) \<in> set evs"
    if v: "req_method req = ''GET''" "path req = ''/token''"
      "validateEnvironment e req = None" "validateRequest req = None"
  proof -
    from v(3) have "token_validateEnvironment e = None"
      by (simp add: validateEnvironment_complete token_validateEnvironment_def agora_configured_def)
    with v assms show ?thesis
      by (auto simp add: handle_request_def validateContentType_def validateRequestBody_def
          dispatch_def get_or_head_def route_matches_exact token_route_def token_handler_def
          Let_def split: sum.splits)
  qed
  show ?thesis using expiry invite tok by blast
qed

text \<open>The run of \<open>GET /token\<close> without query parameters on the sample platform.\<close>

lemma sample_get_token:
  "handle_request sample_platform env_microsoft get_token =
     (\<lparr>status = 200,
       payload = JObj [(''token'', JStr ''007token''), (''uid'', JStr ''0''),
                       (''channel'', JStr ''ai-conversation-1700000000120-i'')]\<rparr>,
      [Sign (token_token_args sample_platform env_microsoft get_token)])"
  by (simp add: handle_request_def dispatch_def get_token_def get_or_head_def route_matches_exact
      validateEnvironment_def validateContentType_def validateRequestBody_def
      token_route_def token_validateEnvironment_def validateRequest_def given_def or_else_def
      token_handler_def token_token_args_def token_channel_def generateChannelName_def
      substring_def Let_def
      sample_platform_def sample_parse_def test_digits_def is_digit_def digits_value_def
      env_microsoft_def unset_def startsWith_def decimal.simps digit_char_def)

text \<open>The run of a valid invite on the sample platform: the credential is signed, then
  the provisioning service is called.\<close>

lemma sample_invite_events:
  "\<exists>c. snd (handle_request sample_platform env_microsoft (post ''/agent/invite'' invite_1234)) =
     [Sign (invite_token_args sample_platform env_microsoft invite_1234), Fetch c]"
proof -
  have "handle_request sample_platform env_microsoft (post ''/agent/invite'' invite_1234) =
      invite_handler sample_platform env_microsoft (body (post ''/agent/invite'' invite_1234))"
    by (rule validated_invite_dispatch)
       (simp_all add: invite_1234_def post_def validateEnvironment_def validateContentType_def
          validateRequestBody_def env_microsoft_def unset_def startsWith_def trim_def is_space_def)
  then show ?thesis
    by (simp add: post_def invite_handler_def invite_1234_def destructurable_def Let_def
        getTTSConfig_def env_microsoft_def unset_def env_text_def sample_platform_def ok_def)
qed

text \<open>\<open>credential_expiry\<close> on \<open>GET /token\<close> and on an invite, both at 1700000000123
  milliseconds: each run signs one credential, with expiry 1700003600.\<close>

theorem credential_expiry_witness:
  "(\<exists>r a. handle_request sample_platform env_microsoft get_token = (r, [Sign a]) \<and>
      tokenExpire a = 1700003600 \<and> privilegeExpire a = 1700003600) \<and>
   (\<exists>r a c. handle_request sample_platform env_microsoft (post ''/agent/invite'' invite_1234) =
        (r, [Sign a, Fetch c]) \<and>
      account a = StringUid ''Agent'' \<and> channelName a = JStr ''demo-chan'' \<and>
      tokenExpire a = 1700003600 \<and> privilegeExpire a = 1700003600)"
proof -
  let ?a = "token_token_args sample_platform env_microsoft get_token"
  let ?i = "invite_token_args sample_platform env_microsoft invite_1234"
  let ?rq = "post ''/agent/invite'' invite_1234"
  from sample_get_token obtain r where
    h: "handle_request sample_platform env_microsoft get_token = (r, [Sign ?a])" by blast
  from credential_expiry [OF h, of ?a] have
    "tokenExpire ?a = 1700003600 \<and> privilegeExpire ?a = 1700003600"
    by (simp add: sample_platform_def)
  with h have one: "\<exists>r a. handle_request sample_platform env_microsoft get_token = (r, [Sign a]) \<and>
      tokenExpire a = 1700003600 \<and> privilegeExpire a = 1700003600" by blast
  from sample_invite_events obtain c where
    "snd (handle_request sample_platform env_microsoft ?rq) = [Sign ?i, Fetch c]" by blast
  then obtain r' where
    g: "handle_request sample_platform env_microsoft ?rq = (r', [Sign ?i, Fetch c])"
    by (cases "handle_request sample_platform env_microsoft ?rq") simp
  from credential_expiry [OF g, of ?i] have
    "tokenExpire ?i = 1700003600 \<and> privilegeExpire ?i = 1700003600"
    by (simp add: sample_platform_def)
  moreover have "account ?i = StringUid ''Agent'' \<and> channelName ?i = JStr ''demo-chan''"
    by (simp add: invite_token_args_def invite_1234_def env_microsoft_def unset_def Let_def)
  ultimately have two: "\<exists>r a c. handle_request sample_platform env_microsoft ?rq =
        (r, [Sign a, Fetch c]) \<and>
      account a = StringUid ''Agent'' \<and> channelName a = JStr ''demo-chan'' \<and>
      tokenExpire a = 1700003600 \<and> privilegeExpire a = 1700003600"
    using g by blast
  show ?thesis using one two by blast
qed

section \<open>Defaults of the token route\<close>

lemma not_digit_hyphen: "\<not> is_digit CHR ''-''"
  by (simp add: is_digit_def)

lemma channel_suffix_generated:
  assumes "list_all (\<lambda>c. is_lower c \<or> is_digit c) suf"
  shows "channel_suffix (''ai-conversation-'' @ decimal t @ ''-'' @ suf) = Some suf"
proof -
  have d: "\<And>x. x \<in> set (decimal t) \<Longrightarrow> is_digit x"
    using decimal_all_digits [of t] by (simp add: list_all_iff)
  have tw: "takeWhile is_digit (decimal t @ CHR ''-'' # suf) = decimal t"
    using d by (simp add: takeWhile_append2 not_digit_hyphen)
  have dw: "dropWhile is_digit (decimal t @ CHR ''-'' # suf) = CHR ''-'' # suf"
    using d by (simp add: dropWhile_append2 not_digit_hyphen)
  show ?thesis
    using assms tw dw decimal_nonempty [of t]
    by (simp add: channel_suffix_def startsWith_def Let_def)
qed

lemma radix36_suffix:
  assumes "radix36_fraction r"
  shows "list_all (\<lambda>c. is_lower c \<or> is_digit c) (substring r 2 8) \<and>
         length (substring r 2 8) \<le> 6 \<and>
         (length (substring r 2 8) = 6 \<longleftrightarrow> 8 \<le> length r)"
proof -
  have a: "list_all (\<lambda>c. is_lower c \<or> is_digit c) (drop 2 r)"
    using assms by (auto simp add: radix36_fraction_def)
  have "list_all (\<lambda>c. is_lower c \<or> is_digit c) (take 6 (drop 2 r))"
    using a by (auto simp add: list_all_iff dest: in_set_takeD)
  then show ?thesis by (auto simp add: substring_def)
qed

text \<open>
  Claim C7, as amended. For every \<open>GET /token\<close> request without query parameters, with
  the identity-provider credentials set and a signing primitive that succeeds, the
  response has status 200, its \<open>uid\<close> is the string \<open>0\<close> (the runtime prints the parsed
  \<open>0\<close> as \<open>0\<close>), and its \<open>channel\<close> is \<open>ai-conversation-\<close>, digits, a hyphen and a suffix
  of at most six lower-case letters and digits. The channel matches
  \<open>^ai-conversation-\d+-[a-z0-9]{6}$\<close> exactly when \<open>Math.random().toString(36)\<close> has at
  least eight characters.
\<close>

theorem token_defaults:
  assumes "req_method req = ''GET''" and "path req = ''/token''"
    and "query_uid req = None" and "query_channel req = None"
    and "agora_configured e"
    and "buildTokenWithUid p (token_token_args p e req) = Inr tok"
    and "numberToString p (parseInt p ''0'') = ''0''"
    and "radix36_fraction (random36 p)"
  shows "\<exists>c suf. fst (handle_request p e req) =
           \<lparr>status = 200,
             payload = JObj [(''token'', JStr tok), (''uid'', JStr ''0''), (''channel'', JStr c)]\<rparr> \<and>
           channel_suffix c = Some suf \<and> length suf \<le> 6 \<and>
           (matches_token_channel c \<longleftrightarrow> 8 \<le> length (random36 p))"
proof -
  let ?suf = "substring (random36 p) 2 8"
  let ?c = "''ai-conversation-'' @ decimal (date_now_name p) @ ''-'' @ ?suf"
  from radix36_suffix [OF assms(8)] have s: "list_all (\<lambda>c. is_lower c \<or> is_digit c) ?suf"
    and l: "length ?suf \<le> 6" and m: "length ?suf = 6 \<longleftrightarrow> 8 \<le> length (random36 p)" by auto
  have cs: "channel_suffix ?c = Some ?suf" using s by (rule channel_suffix_generated)
  have env: "validateEnvironment e req = None"
    using assms(2,5) by (simp add: validateEnvironment_complete startsWith_def)
  have ch: "token_channel p req = ?c"
    using assms(4) by (simp add: token_channel_def generateChannelName_def or_else_def Let_def)
  have "token_handler p e req =
      (\<lparr>status = 200,
        payload = JObj [(''token'', JStr tok), (''uid'', JStr ''0''), (''channel'', JStr ?c)]\<rparr>,
       [Sign (token_token_args p e req)])"
    using assms(3,6,7) ch by (simp add: token_handler_def or_else_def Let_def)
  then have "fst (handle_request p e req) =
      \<lparr>status = 200,
        payload = JObj [(''token'', JStr tok), (''uid'', JStr ''0''), (''channel'', JStr ?c)]\<rparr>"
    using env assms(1-5)
    by (simp add: handle_request_def validateContentType_def validateRequestBody_def dispatch_def
        get_or_head_def route_matches_exact
        token_route_def token_validateEnvironment_def agora_configured_def validateRequest_def
        given_def)
  moreover have "matches_token_channel ?c \<longleftrightarrow> 8 \<le> length (random36 p)"
    using cs m by (simp add: matches_token_channel_def)
  ultimately show ?thesis using cs l by blast
qed

text \<open>\<open>token_defaults\<close> with the random string \<open>0.4fzyo82mvyr\<close>.\<close>

theorem token_defaults_witness:
  "\<exists>c suf. fst (handle_request (sample_platform\<lparr>random36 := ''0.4fzyo82mvyr''\<rparr>)
        env_microsoft get_token) =
      \<lparr>status = 200,
        payload = JObj [(''token'', JStr ''007token''), (''uid'', JStr ''0''),
                        (''channel'', JStr c)]\<rparr> \<and>
      channel_suffix c = Some suf \<and> length suf \<le> 6 \<and> matches_token_channel c"
  using token_defaults [of get_token env_microsoft "sample_platform\<lparr>random36 := ''0.4fzyo82mvyr''\<rparr>"
      "''007token''"]
  by (simp add: get_token_def agora_configured_def env_microsoft_def unset_def sample_platform_def
      sample_parse_def test_digits_def is_digit_def digits_value_def decimal.simps digit_char_def
      radix36_fraction_def is_lower_def)

text \<open>
  Claim C7 as stated fails: when \<open>Math.random()\<close> returns one half, its radix-36 string
  is \<open>0.i\<close>, the suffix is the single character \<open>i\<close>, and the channel does not match
  the regular expression.
\<close>

theorem token_channel_counterexample:
  "fst (handle_request sample_platform env_microsoft get_token) =
     \<lparr>status = 200,
       payload = JObj [(''token'', JStr ''007token''), (''uid'', JStr ''0''),
                       (''channel'', JStr ''ai-conversation-1700000000120-i'')]\<rparr> \<and>
   \<not> matches_token_channel ''ai-conversation-1700000000120-i''"
  by (simp add: sample_get_token matches_token_channel_def channel_suffix_def startsWith_def
      is_digit_def is_lower_def Let_def)

end
